theory Spec2Isabelle
  imports Main "HOL-Library.AList" "HOL-Library.Word"
begin

section \<open>Azure metrics provider of metris: data model\<close>

text \<open>
  The development embeds \<^verbatim>\<open>components/metris/internal/provider/azure/azure.go\<close>:
  the worker loop body of \<^verbatim>\<open>Run\<close>, one iteration of \<^verbatim>\<open>clusterHandler\<close>,
  \<^verbatim>\<open>getMetrics\<close> and \<^verbatim>\<open>sendMetrics\<close>.

  The Azure SDK client, the work queue, the event channel and the JSON encoder are
  collaborators outside of the file.  Their answers are inputs of each step (the records
  \<open>worker_env\<close> and \<open>intake_env\<close>), and every call made to them is appended to a log kept
  in the state, so that "no call was made" and "the item was requeued" are statements
  about the state.
\<close>

subsection \<open>Errors\<close>

text \<open>
  An error value is either an \<^verbatim>\<open>autorest.DetailedError\<close> (of which the code reads
  \<^verbatim>\<open>StatusCode\<close> and \<^verbatim>\<open>Original.Error()\<close>) or any other error.  \<open>Original\<close> is an
  error interface: \<open>None\<close> is the nil interface, \<open>Some text\<close> an error whose
  \<^verbatim>\<open>Error()\<close> is \<open>text\<close>.
\<close>

datatype error =
    DetailedError (StatusCode: int) (Original: "string option")
  | PlainError string

text \<open>
  A run-time panic of the worker goroutine.  Nothing recovers it, so it ends the process:
  a step that panics has no successor state.
\<close>

datatype panic = NilPointerDereference

definition StatusNotFound :: int where
  "StatusNotFound = 404"

definition StatusTooManyRequests :: int where
  "StatusTooManyRequests = 429"

text \<open>\<^verbatim>\<open>strings.Contains(s, substr)\<close>: \<open>substr\<close> occurs in \<open>s\<close> as a contiguous block.\<close>

definition strings_Contains :: "string \<Rightarrow> string \<Rightarrow> bool" where
  "strings_Contains s substr =
     list_ex (\<lambda>i. take (length substr) (drop i s) = substr) [0..<Suc (length s)]"

subsection \<open>Clusters, events, instances\<close>

record Cluster =
  TechnicalID :: string
  AccountID :: string
  SubAccountID :: string
  Region :: string
  Trial :: bool
  Deleted :: bool

text \<open>
  The declarations of \<^verbatim>\<open>EventHub\<close>, \<^verbatim>\<open>EventData\<close> and \<^verbatim>\<open>Instance\<close> are in other files of
  the package.  The fields are the ones \<^verbatim>\<open>azure.go\<close> reads and writes; the seven counters
  of \<^verbatim>\<open>EventHub\<close> are integers here, of which the code only writes the literal 0.
  Compute and networking data are opaque values produced by the sub-fetches.
\<close>

record EventHub =
  NumberNamespaces :: int
  IncomingRequestsPT1M :: int
  MaxIncomingBytesPT1M :: int
  MaxOutgoingBytesPT1M :: int
  IncomingRequestsPT5M :: int
  MaxIncomingBytesPT5M :: int
  MaxOutgoingBytesPT5M :: int

type_synonym ComputeData = nat
type_synonym NetworkData = nat

record EventData =
  ResourceGroups :: "string list"
  Compute :: ComputeData
  Networking :: NetworkData
  EventHub :: EventHub

text \<open>\<open>[vmtype][capname]capvalue\<close>, a Go map of maps, as an association list with unique keys.\<close>

type_synonym vmCapabilities = "(string \<times> (string \<times> string) list) list"

text \<open>
  Modelled from the spec: the declaration of \<^verbatim>\<open>Instance\<close> is not part of the sources.
  The spec gives "RetryAttempts:int": Go's \<^verbatim>\<open>int\<close>, here the 64-bit two's-complement
  integer, so that \<^verbatim>\<open>retryAttempts++\<close> wraps around and \<^verbatim>\<open><\<close> is the signed comparison
  \<open><s\<close>.

  \<open>client\<close> is the handle returned by \<^verbatim>\<open>newClient\<close> (\<open>None\<close> is the nil interface of a
  freshly allocated instance); \<open>lastEvent\<close> is a pointer, nil when no event was sent yet.
\<close>

type_synonym go_int = "64 word"

record Instance =
  cluster :: Cluster
  client :: "nat option"
  eventHubResourceGroupName :: string
  lastEvent :: "EventData option"
  retryAttempts :: go_int
  retryBackoff :: bool

text \<open>
  Both stores hold values of the empty interface; the code recovers the value with a type
  assertion and has a branch for the case that it fails.
\<close>

datatype stored =
    InstanceVal Instance
  | VMCapsVal vmCapabilities
  | OtherVal

subsection \<open>Collaborators and state\<close>

datatype provider_call =
    FetchCompute
  | FetchNetwork
  | FetchEventHub
  | GetResourceGroup
  | GetVMResourceSkus

datatype queue_op =
    Add string
  | AddAfter string
  | Done string

record Event =
  Datatenant :: string
  Data :: string

text \<open>
  Modelled from the spec: the package \<^verbatim>\<open>storage\<close> is not part of the sources.  Its stores
  are "generic concurrent key to value caches"; \<open>Get\<close>, \<open>Put\<close> and \<open>Delete\<close> are lookup,
  update and removal on a map.
\<close>

type_synonym Storage = "string \<rightharpoonup> stored"

definition Get :: "Storage \<Rightarrow> string \<Rightarrow> stored option" where
  "Get s k = s k"

definition Put :: "Storage \<Rightarrow> string \<Rightarrow> stored \<Rightarrow> Storage" where
  "Put s k v = s(k \<mapsto> v)"

definition Delete :: "Storage \<Rightarrow> string \<Rightarrow> Storage" where
  "Delete s k = s(k := None)"

text \<open>
  The state of the provider: the two stores, and the logs of what was done to the
  collaborators: operations on the work queue, events sent to the events channel, calls
  made to the provider client, and notifications scheduled for re-delivery with
  \<^verbatim>\<open>time.AfterFunc\<close>.
\<close>

record Azure =
  instanceStorage :: Storage
  vmCapsStorage :: Storage
  queue :: "queue_op list"
  events :: "Event list"
  calls :: "provider_call list"
  redeliveries :: "Cluster list"

text \<open>
  Constants of the package declared in other files (\<^verbatim>\<open>maxRetryAttempts\<close>,
  \<^verbatim>\<open>responseErrCodeResourceGroupNotFound\<close>) and the JSON encoder (\<open>None\<close> when
  \<^verbatim>\<open>json.Marshal\<close> returns an error) are parameters.
\<close>

record Params =
  maxRetryAttempts :: go_int
  responseErrCodeResourceGroupNotFound :: string
  marshal :: "EventData \<Rightarrow> string option"

text \<open>What the collaborators answer during one worker cycle.\<close>

record worker_env =
  compute_res :: "vmCapabilities \<Rightarrow> error + ComputeData"
  network_res :: "error + NetworkData"
  eventhub_res :: "error + EventHub"
  shuttingDown :: bool

text \<open>
  What the collaborators answer while one notification is handled: the client or the error
  of \<^verbatim>\<open>newClient\<close>, the name of the resource group or the error of the lookup, and the
  SKUs (name and capabilities, each a name and a value) or the error of the listing.
\<close>

record intake_env =
  newClient_res :: "error + nat"
  rg_res :: "error + string"
  skus_res :: "error + (string \<times> (string \<times> string) list) list"

section \<open>getMetrics and sendMetrics\<close>

definition emptyEventHub :: EventHub where
  "emptyEventHub =
     \<lparr>NumberNamespaces = 0, IncomingRequestsPT1M = 0, MaxIncomingBytesPT1M = 0,
      MaxOutgoingBytesPT1M = 0, IncomingRequestsPT5M = 0, MaxIncomingBytesPT5M = 0,
      MaxOutgoingBytesPT5M = 0\<rparr>"

text \<open>
  \<open>getMetrics\<close> returns the provider calls it made, in order, and the result of the
  function: the error of the first failing sub-fetch, or the event data.
\<close>

definition getMetrics ::
  "worker_env \<Rightarrow> Instance \<Rightarrow> vmCapabilities \<Rightarrow> provider_call list \<times> (error + EventData)"
where
  "getMetrics env instance vmcaps =
     (case compute_res env vmcaps of
        Inl err \<Rightarrow> ([FetchCompute], Inl err)
      | Inr computeData \<Rightarrow>
          (case network_res env of
             Inl err \<Rightarrow> ([FetchCompute, FetchNetwork], Inl err)
           | Inr networkData \<Rightarrow>
               let eventData =
                     \<lparr>ResourceGroups = [TechnicalID (cluster instance)],
                      Compute = computeData, Networking = networkData,
                      EventHub = emptyEventHub\<rparr>
               in if length (eventHubResourceGroupName instance) > 0 then
                    (case eventhub_res env of
                       Inl err \<Rightarrow> ([FetchCompute, FetchNetwork, FetchEventHub], Inl err)
                     | Inr eventhubData \<Rightarrow>
                         ([FetchCompute, FetchNetwork, FetchEventHub],
                          Inr (eventData
                                \<lparr>ResourceGroups :=
                                   ResourceGroups eventData @ [eventHubResourceGroupName instance],
                                 EventHub := eventhubData\<rparr>)))
                  else ([FetchCompute, FetchNetwork], Inr eventData)))"

text \<open>
  \<open>sendMetrics\<close>: a marshalling error returns before anything is changed; otherwise the
  event data becomes \<open>lastEvent\<close> and one event is sent.  The result is the instance and
  the events sent.
\<close>

definition sendMetrics :: "Params \<Rightarrow> Instance \<Rightarrow> EventData \<Rightarrow> Instance \<times> Event list" where
  "sendMetrics P instance eventData =
     (case marshal P eventData of
        None \<Rightarrow> (instance, [])
      | Some eventDataRaw \<Rightarrow>
          (instance\<lparr>lastEvent := Some eventData\<rparr>,
           [\<lparr>Datatenant = SubAccountID (cluster instance), Data = eventDataRaw\<rparr>]))"

section \<open>One worker cycle of Run\<close>

text \<open>The region's capabilities, or the empty map when the store has none for the region.\<close>

definition resolve_vmcaps :: "Azure \<Rightarrow> Instance \<Rightarrow> vmCapabilities" where
  "resolve_vmcaps a instance =
     (case Get (vmCapsStorage a) (Region (cluster instance)) of
        Some (VMCapsVal caps) \<Rightarrow> caps
      | _ \<Rightarrow> [])"

text \<open>
  Fetch or skip: with \<open>retryBackoff\<close> set the flag is cleared and an error is made up
  without any call; otherwise \<open>getMetrics\<close> runs.
\<close>

definition fetch_or_skip ::
  "worker_env \<Rightarrow> Instance \<Rightarrow> vmCapabilities \<Rightarrow>
     Instance \<times> provider_call list \<times> (error + EventData)"
where
  "fetch_or_skip env instance vmcaps =
     (if retryBackoff instance then
        (instance\<lparr>retryBackoff := False\<rparr>, [],
         Inl (PlainError ''client-side self-throttling, skip fetching metrics''))
      else
        (let (cs, r) = getMetrics env instance vmcaps in (instance, cs, r)))"

text \<open>
  The \<open>switch\<close> on the status code of a detailed error.  With the status 404 the code
  calls \<^verbatim>\<open>errdetail.Original.Error()\<close>, which panics when \<open>Original\<close> is nil.  The increment
  wraps around, and the comparison with the maximum is signed.

  The instance is a pointer in the source: the increment and the flag are visible in the
  store as soon as they are made, and every path through the cycle that does not panic
  ends with the \<open>Put\<close> of the instance, so the record is passed on by value and written
  back there.
\<close>

definition classify_error ::
  "Params \<Rightarrow> error \<Rightarrow> Storage \<Rightarrow> Instance \<Rightarrow> panic + Storage \<times> Instance"
where
  "classify_error P err s instance =
     (case err of
        DetailedError code original \<Rightarrow>
          if code = StatusNotFound then
            (case original of
               None \<Rightarrow> Inl NilPointerDereference
             | Some text \<Rightarrow>
                 if strings_Contains text (responseErrCodeResourceGroupNotFound P) then
                   (let instance' = instance\<lparr>retryAttempts := retryAttempts instance + 1\<rparr>
                    in if retryAttempts instance' <s maxRetryAttempts P then
                         Inr (Put s (TechnicalID (cluster instance')) (InstanceVal instance'),
                              instance')
                       else
                         Inr (Delete s (TechnicalID (cluster instance')), instance'))
                 else Inr (s, instance))
          else if code = StatusTooManyRequests then
            Inr (s, instance\<lparr>retryBackoff := True\<rparr>)
          else Inr (s, instance)
      | PlainError _ \<Rightarrow> Inr (s, instance))"

text \<open>
  The block \<^verbatim>\<open>if err != nil\<close>: classification, then the fallback to the last event.
  The result is the store, the instance and the event data to send, if any.
\<close>

definition handle_result ::
  "Params \<Rightarrow> error + EventData \<Rightarrow> Storage \<Rightarrow> Instance \<Rightarrow>
     panic + Storage \<times> Instance \<times> EventData option"
where
  "handle_result P r s instance =
     (case r of
        Inr eventData \<Rightarrow> Inr (s, instance, Some eventData)
      | Inl err \<Rightarrow>
          (case classify_error P err s instance of
             Inl p \<Rightarrow> Inl p
           | Inr (s', instance') \<Rightarrow> Inr (s', instance', lastEvent instance')))"

text \<open>
  One iteration of the worker loop for a dequeued identifier: \<open>Inr\<close> the state at the
  end of the iteration, \<open>Inl\<close> the panic that ended it.
\<close>

definition worker_cycle :: "Params \<Rightarrow> worker_env \<Rightarrow> string \<Rightarrow> Azure \<Rightarrow> panic + Azure" where
  "worker_cycle P env clusterid a =
     (case Get (instanceStorage a) clusterid of
        None \<Rightarrow> Inr (a\<lparr>queue := queue a @ [Done clusterid]\<rparr>)
      | Some (InstanceVal instance) \<Rightarrow>
          (let vmcaps = resolve_vmcaps a instance;
               (instance1, cs, r) = fetch_or_skip env instance vmcaps
           in case handle_result P r (instanceStorage a) instance1 of
                Inl p \<Rightarrow> Inl p
              | Inr (s2, instance2, eventData) \<Rightarrow>
                  (let (instance3, evs) =
                         (case eventData of
                            None \<Rightarrow> (instance2, [])
                          | Some ed \<Rightarrow> sendMetrics P instance2 ed);
                       s3 = Put s2 (TechnicalID (cluster instance3)) (InstanceVal instance3)
                   in Inr (a\<lparr>instanceStorage := s3,
                             calls := calls a @ cs,
                             events := events a @ evs,
                             queue := queue a @ [Done clusterid] @
                               (if \<not> shuttingDown env then [AddAfter clusterid] else [])\<rparr>)))
      | Some _ \<Rightarrow>
          Inr (a\<lparr>instanceStorage := Delete (instanceStorage a) clusterid,
                 queue := queue a @ [Done clusterid]\<rparr>))"

section \<open>One notification of clusterHandler\<close>

text \<open>The two nested loops that fill the capability map from the list of SKUs.\<close>

fun fill_caps :: "(string \<times> string) list \<Rightarrow> (string \<times> string) list \<Rightarrow> (string \<times> string) list" where
  "fill_caps [] m = m"
| "fill_caps ((n, v) # cs) m = fill_caps cs (AList.update n v m)"

fun fill_vmcaps :: "(string \<times> (string \<times> string) list) list \<Rightarrow> vmCapabilities \<Rightarrow> vmCapabilities" where
  "fill_vmcaps [] vmcaps = vmcaps"
| "fill_vmcaps ((name, caps) # items) vmcaps =
     fill_vmcaps items (AList.update name (fill_caps caps []) vmcaps)"

text \<open>The initialisation of the capability cache of the cluster's region.\<close>

definition init_vmcaps :: "intake_env \<Rightarrow> Cluster \<Rightarrow> Instance \<Rightarrow> Azure \<Rightarrow> Azure" where
  "init_vmcaps env cl instance a =
     (case Get (vmCapsStorage a) (Region cl) of
        Some _ \<Rightarrow> a
      | None \<Rightarrow>
          (let vmcaps = (case skus_res env of Inl err \<Rightarrow> [] | Inr skuList \<Rightarrow> fill_vmcaps skuList [])
           in a\<lparr>vmCapsStorage :=
                   (if length vmcaps > 0
                    then Put (vmCapsStorage a) (Region (cluster instance)) (VMCapsVal vmcaps)
                    else vmCapsStorage a),
                 calls := calls a @ [GetVMResourceSkus]\<rparr>))"

text \<open>The instance built for a notification, with what is recovered from the store.\<close>

definition recover_instance :: "Azure \<Rightarrow> Cluster \<Rightarrow> Instance" where
  "recover_instance a cl =
     (let instance = \<lparr>cluster = cl, client = None, eventHubResourceGroupName = [],
                      lastEvent = None, retryAttempts = 0, retryBackoff = False\<rparr>
      in case Get (instanceStorage a) (TechnicalID cl) of
           Some (InstanceVal i) \<Rightarrow>
             instance\<lparr>lastEvent := lastEvent i,
                      eventHubResourceGroupName := eventHubResourceGroupName i\<rparr>
         | _ \<Rightarrow> instance)"

text \<open>Persisting the instance, priming the capability cache, admitting the identifier.\<close>

definition persist_and_admit :: "intake_env \<Rightarrow> Cluster \<Rightarrow> Instance \<Rightarrow> Azure \<Rightarrow> Azure" where
  "persist_and_admit env cl instance a =
     (let a1 = a\<lparr>instanceStorage := Put (instanceStorage a) (TechnicalID cl) (InstanceVal instance)\<rparr>;
          a2 = init_vmcaps env cl instance a1
      in a2\<lparr>queue := queue a2 @ [Add (TechnicalID cl)]\<rparr>)"

definition clusterHandler_step :: "intake_env \<Rightarrow> Cluster \<Rightarrow> Azure \<Rightarrow> Azure" where
  "clusterHandler_step env cl a =
     (if Deleted cl then a\<lparr>instanceStorage := Delete (instanceStorage a) (TechnicalID cl)\<rparr>
      else
        (let instance = recover_instance a cl
         in case newClient_res env of
              Inl err \<Rightarrow> a\<lparr>instanceStorage := Delete (instanceStorage a) (TechnicalID cl)\<rparr>
            | Inr c \<Rightarrow>
                (let instance1 = instance\<lparr>client := Some c\<rparr>
                 in if eventHubResourceGroupName instance1 = [] then
                      (let a1 = a\<lparr>calls := calls a @ [GetResourceGroup]\<rparr>
                       in case rg_res env of
                            Inl err \<Rightarrow>
                              if \<not> Trial cl then a1\<lparr>redeliveries := redeliveries a1 @ [cl]\<rparr>
                              else persist_and_admit env cl instance1 a1
                          | Inr name \<Rightarrow>
                              persist_and_admit env cl
                                (instance1\<lparr>eventHubResourceGroupName := name\<rparr>) a1)
                    else persist_and_admit env cl instance1 a)))"

text \<open>A feed of notifications, each with the answers of the collaborators at its time.\<close>

fun clusterHandler :: "(intake_env \<times> Cluster) list \<Rightarrow> Azure \<Rightarrow> Azure" where
  "clusterHandler [] a = a"
| "clusterHandler ((env, cl) # feed) a = clusterHandler feed (clusterHandler_step env cl a)"

definition NewAzureProvider :: Azure where
  "NewAzureProvider =
     \<lparr>instanceStorage = Map.empty, vmCapsStorage = Map.empty, queue = [], events = [],
      calls = [], redeliveries = []\<rparr>"


section \<open>Reachable states and their invariants\<close>

text \<open>
  The states the provider can be in: it starts with empty stores, and each step is either
  one notification handled by \<open>clusterHandler\<close> or one cycle of a worker that does not
  panic, with any answers of the collaborators.  A worker may dequeue any identifier.
\<close>

inductive reachable :: "Params \<Rightarrow> Azure \<Rightarrow> bool" for P :: Params where
  init: "reachable P NewAzureProvider"
| intake: "reachable P a \<Longrightarrow> reachable P (clusterHandler_step env cl a)"
| work: "reachable P a \<Longrightarrow> worker_cycle P wenv k a = Inr a' \<Longrightarrow> reachable P a'"

text \<open>Every instance is stored under the identifier of its own cluster.\<close>

definition keyed :: "Azure \<Rightarrow> bool" where
  "keyed a = (\<forall>k i. instanceStorage a k = Some (InstanceVal i) \<longrightarrow> TechnicalID (cluster i) = k)"

text \<open>Every stored last event is one that the encoder accepts.\<close>

definition sendable :: "Params \<Rightarrow> Azure \<Rightarrow> bool" where
  "sendable P a = (\<forall>k i ed. instanceStorage a k = Some (InstanceVal i) \<longrightarrow>
                      lastEvent i = Some ed \<longrightarrow> marshal P ed \<noteq> None)"


text \<open>
  The event-hub resource group name of the instance that a notification persists: the
  name recovered from the store, or else the one that the lookup returns, or else none.
\<close>

definition resolved_name :: "intake_env \<Rightarrow> Azure \<Rightarrow> Cluster \<Rightarrow> string" where
  "resolved_name env a cl =
     (if eventHubResourceGroupName (recover_instance a cl) \<noteq> []
      then eventHubResourceGroupName (recover_instance a cl)
      else case rg_res env of Inl e \<Rightarrow> [] | Inr n \<Rightarrow> n)"


section \<open>A concrete scenario\<close>


definition render :: "EventData \<Rightarrow> string option" where
  "render ed = Some (concat (ResourceGroups ed))"

definition params5 :: Params where
  "params5 =
     \<lparr>maxRetryAttempts = 5,
      responseErrCodeResourceGroupNotFound = ''ResourceGroupNotFound'',
      marshal = render\<rparr>"

definition cluster_c1 :: Cluster where
  "cluster_c1 =
     \<lparr>TechnicalID = ''c1'', AccountID = ''a1'', SubAccountID = ''s1'', Region = ''eu1'',
      Trial = False, Deleted = False\<rparr>"

definition instance_c1 :: Instance where
  "instance_c1 =
     \<lparr>cluster = cluster_c1, client = Some 0, eventHubResourceGroupName = [],
      lastEvent = None, retryAttempts = 0, retryBackoff = False\<rparr>"

definition eventhub_7 :: EventHub where
  "eventhub_7 =
     \<lparr>NumberNamespaces = 1, IncomingRequestsPT1M = 2, MaxIncomingBytesPT1M = 3,
      MaxOutgoingBytesPT1M = 4, IncomingRequestsPT5M = 5, MaxIncomingBytesPT5M = 6,
      MaxOutgoingBytesPT5M = 7\<rparr>"

definition env_ok :: worker_env where
  "env_ok =
     \<lparr>compute_res = (\<lambda>vmcaps. Inr 11), network_res = Inr 22, eventhub_res = Inr eventhub_7,
      shuttingDown = False\<rparr>"

definition env_not_found :: worker_env where
  "env_not_found =
     env_ok\<lparr>compute_res :=
        (\<lambda>vmcaps. Inl (DetailedError 404
                        (Some ''Code=ResourceGroupNotFound Message=no such group'')))\<rparr>"

definition env_throttled :: worker_env where
  "env_throttled =
     env_ok\<lparr>compute_res :=
        (\<lambda>vmcaps. Inl (DetailedError 429 (Some ''Code=TooManyRequests'')))\<rparr>"

text \<open>A status 404 in a detailed error that has no original error.\<close>

definition env_not_found_nil :: worker_env where
  "env_not_found_nil = env_ok\<lparr>compute_res := (\<lambda>vmcaps. Inl (DetailedError 404 None))\<rparr>"

definition env_network_down :: worker_env where
  "env_network_down = env_ok\<lparr>network_res := Inl (PlainError ''context deadline exceeded'')\<rparr>"

definition env_eventhub_down :: worker_env where
  "env_eventhub_down = env_ok\<lparr>eventhub_res := Inl (PlainError ''context deadline exceeded'')\<rparr>"

definition ienv_ok :: intake_env where
  "ienv_ok =
     \<lparr>newClient_res = Inr 0, rg_res = Inr ''rg-s1'',
      skus_res = Inr [(''Standard_D2'', [(''vCPUs'', ''2'')])]\<rparr>"

definition ienv_no_rg :: intake_env where
  "ienv_no_rg = ienv_ok\<lparr>rg_res := Inl (DetailedError 404 (Some ''no resource group with the tag''))\<rparr>"

definition ienv_no_client :: intake_env where
  "ienv_no_client = ienv_ok\<lparr>newClient_res := Inl (PlainError ''no credentials'')\<rparr>"

text \<open>The provider after the first notification for \<open>c1\<close> was handled.\<close>

definition state_c1 :: Azure where
  "state_c1 = clusterHandler_step ienv_ok cluster_c1 NewAzureProvider"

text \<open>The instance that this notification stores, and the data of a successful fetch.\<close>

definition instance_c1_rg :: Instance where
  "instance_c1_rg = instance_c1\<lparr>eventHubResourceGroupName := ''rg-s1''\<rparr>"

definition eventdata_c1 :: EventData where
  "eventdata_c1 =
     \<lparr>ResourceGroups = [''c1'', ''rg-s1''], Compute = 11, Networking = 22,
      EventHub = eventhub_7\<rparr>"

text \<open>The provider after one more worker cycle for \<open>c1\<close>, with a successful fetch.\<close>

definition state_c1_polled :: Azure where
  "state_c1_polled =
     state_c1
       \<lparr>instanceStorage :=
          [''c1'' \<mapsto> InstanceVal (instance_c1_rg\<lparr>lastEvent := Some eventdata_c1\<rparr>)],
        queue := queue state_c1 @ [Done ''c1'', AddAfter ''c1''],
        events := [\<lparr>Datatenant = ''s1'', Data = ''c1rg-s1''\<rparr>],
        calls := calls state_c1 @ [FetchCompute, FetchNetwork, FetchEventHub]\<rparr>"

text \<open>
  The provider after \<open>n\<close> worker cycles for \<open>c1\<close> that follow the first notification
  and all fail with "resource group not found".
\<close>

definition state_c1_not_found :: "nat \<Rightarrow> Azure" where
  "state_c1_not_found n =
     state_c1
       \<lparr>instanceStorage :=
          [''c1'' \<mapsto> InstanceVal (instance_c1_rg\<lparr>retryAttempts := of_nat n\<rparr>)],
        queue := queue state_c1 @ concat (replicate n [Done ''c1'', AddAfter ''c1'']),
        calls := calls state_c1 @ replicate n FetchCompute\<rparr>"

text \<open>The deletion of \<open>c1\<close>, and the provider after it was handled.\<close>

definition cluster_c1_gone :: Cluster where
  "cluster_c1_gone = cluster_c1\<lparr>Deleted := True\<rparr>"

definition state_c1_deleted :: Azure where
  "state_c1_deleted = clusterHandler_step ienv_ok cluster_c1_gone state_c1_polled"

text \<open>
  A trial cluster \<open>t1\<close> whose resource group is not found by the lookup: the instance
  that its notification stores, the provider after the notification, and after one worker
  cycle that failed with "resource group not found".  Then the cluster is no longer trial.
\<close>

definition cluster_t1 :: Cluster where
  "cluster_t1 =
     \<lparr>TechnicalID = ''t1'', AccountID = ''a2'', SubAccountID = ''s2'', Region = ''eu1'',
      Trial = True, Deleted = False\<rparr>"

definition instance_t1 :: Instance where
  "instance_t1 =
     \<lparr>cluster = cluster_t1, client = Some 0, eventHubResourceGroupName = [],
      lastEvent = None, retryAttempts = 0, retryBackoff = False\<rparr>"

definition state_t1 :: Azure where
  "state_t1 = clusterHandler_step ienv_no_rg cluster_t1 NewAzureProvider"

definition state_t1_failed :: Azure where
  "state_t1_failed =
     state_t1
       \<lparr>instanceStorage := [''t1'' \<mapsto> InstanceVal (instance_t1\<lparr>retryAttempts := 1\<rparr>)],
        queue := queue state_t1 @ [Done ''t1'', AddAfter ''t1''],
        calls := calls state_t1 @ [FetchCompute]\<rparr>"

definition cluster_t1_paid :: Cluster where
  "cluster_t1_paid = cluster_t1\<lparr>Trial := False\<rparr>"

section \<open>The stages of a worker cycle\<close>

lemma fetch_or_skip_fields:
  assumes "fetch_or_skip env i vm = (i1, cs, r)"
  shows "cluster i1 = cluster i" "lastEvent i1 = lastEvent i"
    "retryAttempts i1 = retryAttempts i" "retryBackoff i1 = False"
    "eventHubResourceGroupName i1 = eventHubResourceGroupName i" "client i1 = client i"
  using assms by (auto simp: fetch_or_skip_def split: if_splits prod.splits)


lemma classify_error_fields:
  assumes "classify_error P err s i = Inr (s', i')"
  shows "cluster i' = cluster i" "lastEvent i' = lastEvent i"
    "eventHubResourceGroupName i' = eventHubResourceGroupName i" "client i' = client i"
    "retryAttempts i' = retryAttempts i \<or> retryAttempts i' = retryAttempts i + 1"
  using assms
  by (auto simp: classify_error_def Let_def split: error.splits if_splits option.splits)

lemma classify_error_store:
  assumes "classify_error P err s i = Inr (s', i')" "k \<noteq> TechnicalID (cluster i)"
  shows "s' k = s k"
  using assms
  by (auto simp: classify_error_def Let_def Put_def Delete_def
      split: error.splits if_splits option.splits)

lemma handle_result_fields:
  assumes "handle_result P r s i = Inr (s', i', ed)"
  shows "cluster i' = cluster i"
    "eventHubResourceGroupName i' = eventHubResourceGroupName i" "client i' = client i"
    "lastEvent i' = lastEvent i"
    "retryAttempts i' = retryAttempts i \<or> retryAttempts i' = retryAttempts i + 1"
  using assms classify_error_fields
  by (auto simp: handle_result_def split: sum.splits prod.splits)

lemma handle_result_store:
  assumes "handle_result P r s i = Inr (s', i', ed)" "k \<noteq> TechnicalID (cluster i)"
  shows "s' k = s k"
  using assms classify_error_store
  by (auto simp: handle_result_def split: sum.splits prod.splits)

lemma sendMetrics_fields:
  assumes "sendMetrics P i ed = (i', evs)"
  shows "cluster i' = cluster i" "retryAttempts i' = retryAttempts i"
    "retryBackoff i' = retryBackoff i"
    "eventHubResourceGroupName i' = eventHubResourceGroupName i" "client i' = client i"
  using assms by (auto simp: sendMetrics_def split: option.splits)

lemma send_stage_fields:
  assumes "(case ed of None \<Rightarrow> (i2, []) | Some e \<Rightarrow> sendMetrics P i2 e) = (i3, evs)"
  shows "cluster i3 = cluster i2" "retryAttempts i3 = retryAttempts i2"
    "retryBackoff i3 = retryBackoff i2"
    "eventHubResourceGroupName i3 = eventHubResourceGroupName i2" "client i3 = client i2"
  using assms sendMetrics_fields by (auto split: option.splits)

lemma send_stage_lastEvent:
  assumes "(case ed of None \<Rightarrow> (i2, []) | Some e \<Rightarrow> sendMetrics P i2 e) = (i3, evs)"
  shows "lastEvent i3 = lastEvent i2 \<or> (\<exists>e. lastEvent i3 = Some e \<and> marshal P e \<noteq> None)"
  using assms by (auto simp: sendMetrics_def split: option.splits)

text \<open>A cycle for a stored instance either panics in the classification or runs all stages.\<close>

lemma worker_cycle_present:
  assumes "instanceStorage a k = Some (InstanceVal i)"
  obtains (panics) i1 cs r p where
    "fetch_or_skip env i (resolve_vmcaps a i) = (i1, cs, r)"
    "handle_result P r (instanceStorage a) i1 = Inl p"
    "worker_cycle P env k a = Inl p"
  | (completes) i1 cs r s2 i2 ed i3 evs where
    "fetch_or_skip env i (resolve_vmcaps a i) = (i1, cs, r)"
    "handle_result P r (instanceStorage a) i1 = Inr (s2, i2, ed)"
    "(case ed of None \<Rightarrow> (i2, []) | Some e \<Rightarrow> sendMetrics P i2 e) = (i3, evs)"
    "worker_cycle P env k a =
       Inr (a\<lparr>instanceStorage := Put s2 (TechnicalID (cluster i3)) (InstanceVal i3),
         calls := calls a @ cs,
         events := events a @ evs,
         queue := queue a @ [Done k] @ (if \<not> shuttingDown env then [AddAfter k] else [])\<rparr>)"
proof -
  obtain i1 cs r where f: "fetch_or_skip env i (resolve_vmcaps a i) = (i1, cs, r)"
    by (metis prod_cases3)
  show thesis
  proof (cases "handle_result P r (instanceStorage a) i1")
    case (Inl p)
    have "worker_cycle P env k a = Inl p"
      using assms f Inl by (simp add: worker_cycle_def Get_def Let_def)
    with f Inl show thesis by (rule panics)
  next
    case (Inr t)
    obtain s2 i2 ed where t: "t = (s2, i2, ed)" by (metis prod_cases3)
    obtain i3 evs where
      s: "(case ed of None \<Rightarrow> (i2, []) | Some e \<Rightarrow> sendMetrics P i2 e) = (i3, evs)"
      by (metis surj_pair)
    have "worker_cycle P env k a =
       Inr (a\<lparr>instanceStorage := Put s2 (TechnicalID (cluster i3)) (InstanceVal i3),
         calls := calls a @ cs,
         events := events a @ evs,
         queue := queue a @ [Done k] @ (if \<not> shuttingDown env then [AddAfter k] else [])\<rparr>)"
      using assms f Inr t s by (simp add: worker_cycle_def Get_def Let_def)
    with f Inr t s show thesis using completes by blast
  qed
qed

text \<open>The same for a cycle that is known to complete.\<close>

lemma worker_cycle_completed:
  assumes "instanceStorage a k = Some (InstanceVal i)" "worker_cycle P env k a = Inr a'"
  obtains i1 cs r s2 i2 ed i3 evs where
    "fetch_or_skip env i (resolve_vmcaps a i) = (i1, cs, r)"
    "handle_result P r (instanceStorage a) i1 = Inr (s2, i2, ed)"
    "(case ed of None \<Rightarrow> (i2, []) | Some e \<Rightarrow> sendMetrics P i2 e) = (i3, evs)"
    "a' = a\<lparr>instanceStorage := Put s2 (TechnicalID (cluster i3)) (InstanceVal i3),
         calls := calls a @ cs,
         events := events a @ evs,
         queue := queue a @ [Done k] @ (if \<not> shuttingDown env then [AddAfter k] else [])\<rparr>"
proof (rule worker_cycle_present[OF assms(1), of env P])
  fix i1 cs r p
  assume "worker_cycle P env k a = Inl p"
  with assms(2) show thesis by simp
next
  fix i1 cs r s2 i2 ed i3 evs
  assume f: "fetch_or_skip env i (resolve_vmcaps a i) = (i1, cs, r)"
    and h: "handle_result P r (instanceStorage a) i1 = Inr (s2, i2, ed)"
    and s: "(case ed of None \<Rightarrow> (i2, []) | Some e \<Rightarrow> sendMetrics P i2 e) = (i3, evs)"
    and w: "worker_cycle P env k a =
       Inr (a\<lparr>instanceStorage := Put s2 (TechnicalID (cluster i3)) (InstanceVal i3),
         calls := calls a @ cs,
         events := events a @ evs,
         queue := queue a @ [Done k] @ (if \<not> shuttingDown env then [AddAfter k] else [])\<rparr>)"
  from w assms(2) have "a' = a\<lparr>instanceStorage := Put s2 (TechnicalID (cluster i3)) (InstanceVal i3),
         calls := calls a @ cs,
         events := events a @ evs,
         queue := queue a @ [Done k] @ (if \<not> shuttingDown env then [AddAfter k] else [])\<rparr>"
    by simp
  with f h s show thesis by (rule that)
qed

section \<open>The instance store under worker cycles\<close>

lemma worker_cycle_other_key:
  assumes "instanceStorage a k = Some (InstanceVal i)" "TechnicalID (cluster i) = k"
    "worker_cycle P env k a = Inr a'" "k' \<noteq> k"
  shows "instanceStorage a' k' = instanceStorage a k'"
proof -
  from assms(1,3) obtain i1 cs r s2 i2 ed i3 evs where
    f: "fetch_or_skip env i (resolve_vmcaps a i) = (i1, cs, r)" and
    h: "handle_result P r (instanceStorage a) i1 = Inr (s2, i2, ed)" and
    s: "(case ed of None \<Rightarrow> (i2, []) | Some e \<Rightarrow> sendMetrics P i2 e) = (i3, evs)" and
    w: "a' = a\<lparr>instanceStorage := Put s2 (TechnicalID (cluster i3)) (InstanceVal i3),
         calls := calls a @ cs,
         events := events a @ evs,
         queue := queue a @ [Done k] @ (if \<not> shuttingDown env then [AddAfter k] else [])\<rparr>"
    by (rule worker_cycle_completed)
  have c: "cluster i3 = cluster i"
    using fetch_or_skip_fields(1)[OF f] handle_result_fields(1)[OF h] send_stage_fields(1)[OF s]
    by simp
  have "s2 k' = instanceStorage a k'"
    using handle_result_store[OF h, of k'] fetch_or_skip_fields(1)[OF f] assms(2,4) by simp
  then show ?thesis using w c assms(2,4) by (simp add: Put_def)
qed

lemma worker_cycle_same_key:
  assumes "instanceStorage a k = Some (InstanceVal i)" "TechnicalID (cluster i) = k"
    "worker_cycle P env k a = Inr a'"
  shows "\<exists>i'. instanceStorage a' k = Some (InstanceVal i')
           \<and> cluster i' = cluster i
           \<and> (retryAttempts i' = retryAttempts i \<or> retryAttempts i' = retryAttempts i + 1)
           \<and> (lastEvent i' = lastEvent i \<or> (\<exists>e. lastEvent i' = Some e \<and> marshal P e \<noteq> None))"
proof -
  from assms(1,3) obtain i1 cs r s2 i2 ed i3 evs where
    f: "fetch_or_skip env i (resolve_vmcaps a i) = (i1, cs, r)" and
    h: "handle_result P r (instanceStorage a) i1 = Inr (s2, i2, ed)" and
    s: "(case ed of None \<Rightarrow> (i2, []) | Some e \<Rightarrow> sendMetrics P i2 e) = (i3, evs)" and
    w: "a' = a\<lparr>instanceStorage := Put s2 (TechnicalID (cluster i3)) (InstanceVal i3),
         calls := calls a @ cs,
         events := events a @ evs,
         queue := queue a @ [Done k] @ (if \<not> shuttingDown env then [AddAfter k] else [])\<rparr>"
    by (rule worker_cycle_completed)
  have c: "cluster i3 = cluster i"
    using fetch_or_skip_fields(1)[OF f] handle_result_fields(1)[OF h] send_stage_fields(1)[OF s]
    by simp
  have r: "retryAttempts i3 = retryAttempts i \<or> retryAttempts i3 = retryAttempts i + 1"
    using fetch_or_skip_fields(3)[OF f] handle_result_fields(5)[OF h] send_stage_fields(2)[OF s]
    by simp
  have "lastEvent i2 = lastEvent i"
    using fetch_or_skip_fields(2)[OF f] handle_result_fields(4)[OF h] by simp
  then have l: "lastEvent i3 = lastEvent i \<or> (\<exists>e. lastEvent i3 = Some e \<and> marshal P e \<noteq> None)"
    using send_stage_lastEvent[OF s] by simp
  show ?thesis using w c r l assms(2) by (simp add: Put_def)
qed

lemma worker_cycle_no_instance:
  assumes "\<forall>i. instanceStorage a k \<noteq> Some (InstanceVal i)"
  shows "\<exists>a'. worker_cycle P env k a = Inr a'
           \<and> instanceStorage a' = Delete (instanceStorage a) k"
  using assms
  by (auto simp: worker_cycle_def Get_def Delete_def split: option.splits stored.splits)

lemma keyed_worker_cycle:
  assumes "keyed a" "worker_cycle P env k a = Inr a'"
  shows "keyed a'"
proof (cases "\<exists>i. instanceStorage a k = Some (InstanceVal i)")
  case True
  then obtain i where i: "instanceStorage a k = Some (InstanceVal i)" by blast
  with assms(1) have t: "TechnicalID (cluster i) = k" by (simp add: keyed_def)
  show ?thesis unfolding keyed_def
  proof (intro allI impI)
    fix k' i'
    assume st: "instanceStorage a' k' = Some (InstanceVal i')"
    show "TechnicalID (cluster i') = k'"
    proof (cases "k' = k")
      case True
      then show ?thesis using worker_cycle_same_key[OF i t assms(2)] st t by auto
    next
      case False
      then have "instanceStorage a k' = Some (InstanceVal i')"
        using worker_cycle_other_key[OF i t assms(2) False] st by simp
      then show ?thesis using assms(1) by (simp add: keyed_def)
    qed
  qed
next
  case False
  then have "instanceStorage a' = Delete (instanceStorage a) k"
    using worker_cycle_no_instance[of a k P env] assms(2) by auto
  then show ?thesis using assms(1) by (auto simp: keyed_def Delete_def split: if_splits)
qed

lemma sendable_worker_cycle:
  assumes "sendable P a" "keyed a" "worker_cycle P env k a = Inr a'"
  shows "sendable P a'"
proof (cases "\<exists>i. instanceStorage a k = Some (InstanceVal i)")
  case True
  then obtain i where i: "instanceStorage a k = Some (InstanceVal i)" by blast
  with assms(2) have t: "TechnicalID (cluster i) = k" by (simp add: keyed_def)
  show ?thesis unfolding sendable_def
  proof (intro allI impI)
    fix k' i' ed
    assume st: "instanceStorage a' k' = Some (InstanceVal i')"
      and le: "lastEvent i' = Some ed"
    show "marshal P ed \<noteq> None"
    proof (cases "k' = k")
      case True
      from worker_cycle_same_key[OF i t assms(3)] obtain j where
        j: "instanceStorage a' k = Some (InstanceVal j)"
        "lastEvent j = lastEvent i \<or> (\<exists>e. lastEvent j = Some e \<and> marshal P e \<noteq> None)"
        by blast
      from j(1) st True have "j = i'" by simp
      with j(2) le have "lastEvent i = Some ed \<or> marshal P ed \<noteq> None" by auto
      then show ?thesis using i assms(1) unfolding sendable_def by blast
    next
      case False
      then have "instanceStorage a k' = Some (InstanceVal i')"
        using worker_cycle_other_key[OF i t assms(3) False] st by simp
      then show ?thesis using le assms(1) unfolding sendable_def by blast
    qed
  qed
next
  case False
  then have "instanceStorage a' = Delete (instanceStorage a) k"
    using worker_cycle_no_instance[of a k P env] assms(3) by auto
  then show ?thesis using assms(1) by (auto simp: sendable_def Delete_def split: if_splits)
qed

text \<open>
  What a completed cycle sends: after a fetch that returned data, the freshly assembled
  data; after a fetch that failed, the last event, if there is one; in both cases only if
  the encoder accepts it.
\<close>

lemma sendMetrics_events:
  "snd (sendMetrics P i ed) =
     (case marshal P ed of None \<Rightarrow> []
      | Some raw \<Rightarrow> [\<lparr>Datatenant = SubAccountID (cluster i), Data = raw\<rparr>])"
  by (simp add: sendMetrics_def split: option.splits)

lemma worker_cycle_events:
  assumes st: "instanceStorage a k = Some (InstanceVal i)"
    and nb: "\<not> retryBackoff i"
    and g: "getMetrics env i (resolve_vmcaps a i) = (cs, r)"
    and w: "worker_cycle P env k a = Inr a'"
  shows "events a' = events a @
     (case r of
        Inr ed \<Rightarrow>
          (case marshal P ed of None \<Rightarrow> []
           | Some raw \<Rightarrow> [\<lparr>Datatenant = SubAccountID (cluster i), Data = raw\<rparr>])
      | Inl e \<Rightarrow>
          (case lastEvent i of None \<Rightarrow> []
           | Some ed \<Rightarrow>
               (case marshal P ed of None \<Rightarrow> []
                | Some raw \<Rightarrow> [\<lparr>Datatenant = SubAccountID (cluster i), Data = raw\<rparr>])))"
proof -
  from st w obtain i1 cs' r' s2 i2 ed i3 evs where
    f: "fetch_or_skip env i (resolve_vmcaps a i) = (i1, cs', r')" and
    h: "handle_result P r' (instanceStorage a) i1 = Inr (s2, i2, ed)" and
    s: "(case ed of None \<Rightarrow> (i2, []) | Some e \<Rightarrow> sendMetrics P i2 e) = (i3, evs)" and
    a': "a' = a\<lparr>instanceStorage := Put s2 (TechnicalID (cluster i3)) (InstanceVal i3),
         calls := calls a @ cs',
         events := events a @ evs,
         queue := queue a @ [Done k] @ (if \<not> shuttingDown env then [AddAfter k] else [])\<rparr>"
    by (rule worker_cycle_completed)
  from f nb g have r': "r' = r" and i1: "i1 = i" by (simp_all add: fetch_or_skip_def)
  have c2: "cluster i2 = cluster i" and l2: "lastEvent i2 = lastEvent i"
    using handle_result_fields(1,4)[OF h] i1 by simp_all
  have evs: "evs = (case ed of None \<Rightarrow> [] | Some e \<Rightarrow> snd (sendMetrics P i2 e))"
    using s by (cases ed) auto
  have ed: "ed = (case r of Inr d \<Rightarrow> Some d | Inl e \<Rightarrow> lastEvent i)"
    using h r' l2 i1 by (auto simp: handle_result_def split: sum.splits prod.splits)
  show ?thesis
    using a' evs ed c2
    by (simp add: sendMetrics_events split: sum.splits option.splits)
qed

section \<open>The instance store under notifications\<close>


lemma init_vmcaps_instanceStorage:
  "instanceStorage (init_vmcaps env cl i a) = instanceStorage a"
  by (simp add: init_vmcaps_def Let_def split: option.splits)

lemma persist_and_admit_instanceStorage:
  "instanceStorage (persist_and_admit env cl i a) = Put (instanceStorage a) (TechnicalID cl) (InstanceVal i)"
  by (simp add: persist_and_admit_def Let_def init_vmcaps_instanceStorage)

lemma recover_instance_cluster: "cluster (recover_instance a cl) = cl"
  by (simp add: recover_instance_def Let_def Get_def split: option.splits stored.splits)

lemma recover_instance_lastEvent:
  "lastEvent (recover_instance a cl) = Some ed \<Longrightarrow>
     \<exists>i. instanceStorage a (TechnicalID cl) = Some (InstanceVal i) \<and> lastEvent i = Some ed"
  by (auto simp: recover_instance_def Let_def Get_def split: option.splits stored.splits)

lemma recover_instance_counters:
  "retryAttempts (recover_instance a cl) = 0" "retryBackoff (recover_instance a cl) = False"
  by (simp_all add: recover_instance_def Let_def Get_def split: option.splits stored.splits)

text \<open>What one notification does to the instance store.\<close>

lemma clusterHandler_step_store:
  "instanceStorage (clusterHandler_step env cl a) = instanceStorage a
   \<or> instanceStorage (clusterHandler_step env cl a) = Delete (instanceStorage a) (TechnicalID cl)
   \<or> (\<exists>i'. instanceStorage (clusterHandler_step env cl a) =
          Put (instanceStorage a) (TechnicalID cl) (InstanceVal i')
        \<and> cluster i' = cl \<and> lastEvent i' = lastEvent (recover_instance a cl)
        \<and> retryAttempts i' = 0 \<and> retryBackoff i' = False)"
  by (auto simp: clusterHandler_step_def Let_def persist_and_admit_instanceStorage
        recover_instance_cluster recover_instance_counters split: sum.splits)

lemma keyed_clusterHandler_step:
  assumes "keyed a"
  shows "keyed (clusterHandler_step env cl a)"
  using assms clusterHandler_step_store[of env cl a]
  by (auto simp: keyed_def Put_def Delete_def split: if_splits)

lemma sendable_clusterHandler_step:
  assumes "sendable P a"
  shows "sendable P (clusterHandler_step env cl a)"
  unfolding sendable_def
proof (intro allI impI)
  fix k i ed
  assume st: "instanceStorage (clusterHandler_step env cl a) k = Some (InstanceVal i)"
    and le: "lastEvent i = Some ed"
  from clusterHandler_step_store[of env cl a]
  consider "instanceStorage (clusterHandler_step env cl a) = instanceStorage a"
    | "instanceStorage (clusterHandler_step env cl a) = Delete (instanceStorage a) (TechnicalID cl)"
    | i' where "instanceStorage (clusterHandler_step env cl a) =
          Put (instanceStorage a) (TechnicalID cl) (InstanceVal i')"
        "lastEvent i' = lastEvent (recover_instance a cl)"
    by blast
  then show "marshal P ed \<noteq> None"
  proof cases
    case 1
    then show ?thesis using st le assms by (simp add: sendable_def)
  next
    case 2
    then show ?thesis using st le assms by (auto simp: sendable_def Delete_def split: if_splits)
  next
    case 3
    show ?thesis
    proof (cases "k = TechnicalID cl")
      case True
      then have "i = i'" using 3(1) st by (simp add: Put_def)
      then have "lastEvent (recover_instance a cl) = Some ed" using 3(2) le by simp
      then show ?thesis using recover_instance_lastEvent assms unfolding sendable_def by blast
    next
      case False
      then show ?thesis using 3(1) st le assms by (simp add: sendable_def Put_def)
    qed
  qed
qed

lemma clusterHandler_append:
  "clusterHandler (feed @ feed') a = clusterHandler feed' (clusterHandler feed a)"
  by (induction feed arbitrary: a) auto

lemma recover_instance_known:
  assumes "instanceStorage a (TechnicalID cl) = Some (InstanceVal old)"
  shows "recover_instance a cl =
     \<lparr>cluster = cl, client = None,
      eventHubResourceGroupName = eventHubResourceGroupName old,
      lastEvent = lastEvent old, retryAttempts = 0, retryBackoff = False\<rparr>"
  using assms by (simp add: recover_instance_def Get_def)

lemma recover_instance_unknown:
  assumes "\<forall>i. instanceStorage a (TechnicalID cl) \<noteq> Some (InstanceVal i)"
  shows "recover_instance a cl =
     \<lparr>cluster = cl, client = None, eventHubResourceGroupName = [],
      lastEvent = None, retryAttempts = 0, retryBackoff = False\<rparr>"
  using assms
  by (auto simp: recover_instance_def Get_def Let_def split: option.splits stored.splits)

lemma recover_instance_cong:
  assumes "instanceStorage a' (TechnicalID cl) = instanceStorage a (TechnicalID cl)"
  shows "recover_instance a' cl = recover_instance a cl"
  using assms by (simp add: recover_instance_def Get_def)

lemma init_vmcaps_frame:
  "queue (init_vmcaps env cl i a) = queue a"
  "redeliveries (init_vmcaps env cl i a) = redeliveries a"
  "events (init_vmcaps env cl i a) = events a"
  by (simp_all add: init_vmcaps_def Let_def split: option.splits)

lemma persist_and_admit_frame:
  "queue (persist_and_admit env cl i a) = queue a @ [Add (TechnicalID cl)]"
  "redeliveries (persist_and_admit env cl i a) = redeliveries a"
  "events (persist_and_admit env cl i a) = events a"
  by (simp_all add: persist_and_admit_def Let_def init_vmcaps_frame)

text \<open>The three outcomes of a notification that is not a deletion.\<close>

lemma clusterHandler_step_no_client:
  assumes "\<not> Deleted cl" "newClient_res env = Inl e"
  shows "clusterHandler_step env cl a =
           a\<lparr>instanceStorage := Delete (instanceStorage a) (TechnicalID cl)\<rparr>"
  using assms by (simp add: clusterHandler_step_def Let_def)

lemma clusterHandler_step_deferred:
  assumes "\<not> Deleted cl" "newClient_res env = Inr c"
    "eventHubResourceGroupName (recover_instance a cl) = []" "rg_res env = Inl e" "\<not> Trial cl"
  shows "clusterHandler_step env cl a =
           a\<lparr>calls := calls a @ [GetResourceGroup], redeliveries := redeliveries a @ [cl]\<rparr>"
  using assms by (simp add: clusterHandler_step_def Let_def)


lemma clusterHandler_step_persisted:
  assumes "\<not> Deleted cl" "newClient_res env = Inr c"
    "eventHubResourceGroupName (recover_instance a cl) \<noteq> [] \<or> Trial cl \<or> (\<exists>n. rg_res env = Inr n)"
  shows "instanceStorage (clusterHandler_step env cl a) =
           Put (instanceStorage a) (TechnicalID cl)
             (InstanceVal \<lparr>cluster = cl, client = Some c,
                eventHubResourceGroupName = resolved_name env a cl,
                lastEvent = lastEvent (recover_instance a cl),
                retryAttempts = 0, retryBackoff = False\<rparr>)"
    and "queue (clusterHandler_step env cl a) = queue a @ [Add (TechnicalID cl)]"
    and "redeliveries (clusterHandler_step env cl a) = redeliveries a"
proof -
  obtain E L where r: "recover_instance a cl =
      \<lparr>cluster = cl, client = None, eventHubResourceGroupName = E,
       lastEvent = L, retryAttempts = 0, retryBackoff = False\<rparr>"
    by (cases "\<exists>i. instanceStorage a (TechnicalID cl) = Some (InstanceVal i)")
      (auto simp: recover_instance_known recover_instance_unknown)
  show "instanceStorage (clusterHandler_step env cl a) =
           Put (instanceStorage a) (TechnicalID cl)
             (InstanceVal \<lparr>cluster = cl, client = Some c,
                eventHubResourceGroupName = resolved_name env a cl,
                lastEvent = lastEvent (recover_instance a cl),
                retryAttempts = 0, retryBackoff = False\<rparr>)"
    using assms
    by (auto simp: clusterHandler_step_def Let_def persist_and_admit_instanceStorage
        resolved_name_def r split: sum.splits)
  show "queue (clusterHandler_step env cl a) = queue a @ [Add (TechnicalID cl)]"
    using assms
    by (auto simp: clusterHandler_step_def Let_def persist_and_admit_frame split: sum.splits)
  show "redeliveries (clusterHandler_step env cl a) = redeliveries a"
    using assms
    by (auto simp: clusterHandler_step_def Let_def persist_and_admit_frame split: sum.splits)
qed

section \<open>Invariants of the reachable states\<close>

lemma reachable_invariants:
  assumes "reachable P a"
  shows "keyed a \<and> sendable P a"
  using assms
proof (induction rule: reachable.induct)
  case init
  show ?case by (simp add: keyed_def sendable_def NewAzureProvider_def)
next
  case (intake a env cl)
  then show ?case by (simp add: keyed_clusterHandler_step sendable_clusterHandler_step)
next
  case (work a wenv k a')
  then show ?case using keyed_worker_cycle sendable_worker_cycle by blast
qed

section \<open>The scenario, evaluated\<close>

lemma state_c1_eq:
  "state_c1 =
     \<lparr>instanceStorage = [''c1'' \<mapsto> InstanceVal instance_c1_rg],
      vmCapsStorage = [''eu1'' \<mapsto> VMCapsVal [(''Standard_D2'', [(''vCPUs'', ''2'')])]],
      queue = [Add ''c1''], events = [],
      calls = [GetResourceGroup, GetVMResourceSkus], redeliveries = []\<rparr>"
  by (simp add: state_c1_def clusterHandler_step_def cluster_c1_def ienv_ok_def Let_def
      recover_instance_def NewAzureProvider_def Get_def Put_def persist_and_admit_def
      init_vmcaps_def instance_c1_rg_def instance_c1_def)

lemma state_c1_polled_step:
  "worker_cycle params5 env_ok ''c1'' state_c1 = Inr state_c1_polled"
  by (simp add: state_c1_polled_def state_c1_eq worker_cycle_def Get_def Let_def
      resolve_vmcaps_def fetch_or_skip_def getMetrics_def handle_result_def sendMetrics_def
      env_ok_def instance_c1_rg_def instance_c1_def cluster_c1_def params5_def render_def
      eventdata_c1_def Put_def)

lemma reachable_state_c1: "reachable params5 state_c1"
  unfolding state_c1_def by (rule reachable.intake[OF reachable.init])

lemma reachable_state_c1_polled: "reachable params5 state_c1_polled"
  by (rule reachable.work[OF reachable_state_c1 state_c1_polled_step])

lemma contains_not_found:
  "strings_Contains ''Code=ResourceGroupNotFound Message=no such group'' ''ResourceGroupNotFound''"
  by (simp add: strings_Contains_def)


lemma concat_replicate_snoc: "concat (replicate n xs) @ xs = xs @ concat (replicate n xs)"
  by (induction n) simp_all

text \<open>
  A cycle that fails with "resource group not found" leaves the instance in the store,
  whatever the counter is: below the maximum by the \<open>Put\<close> of the classification, at
  or above it by the \<open>Put\<close> at the end of the cycle, after the \<open>Delete\<close>.
\<close>

lemma not_found_cycle:
  "worker_cycle params5 env_not_found ''c1'' (state_c1_not_found n) =
     Inr (state_c1_not_found (Suc n))"
  by (simp add: state_c1_not_found_def state_c1_eq worker_cycle_def Get_def Let_def
      resolve_vmcaps_def fetch_or_skip_def getMetrics_def handle_result_def classify_error_def
      env_not_found_def env_ok_def instance_c1_rg_def instance_c1_def cluster_c1_def
      StatusNotFound_def params5_def contains_not_found Put_def Delete_def
      add.commute concat_replicate_snoc replicate_append_same)


lemma not_found_counter:
  "instanceStorage (state_c1_not_found n) ''c1'' =
     Some (InstanceVal (instance_c1_rg\<lparr>retryAttempts := of_nat n\<rparr>))"
  by (simp add: state_c1_not_found_def)

lemma state_c1_deleted_eq:
  "state_c1_deleted = state_c1_polled\<lparr>instanceStorage := Map.empty\<rparr>"
  by (simp add: state_c1_deleted_def clusterHandler_step_def cluster_c1_gone_def
      cluster_c1_def state_c1_polled_def Delete_def)

lemma state_t1_eq:
  "state_t1 =
     \<lparr>instanceStorage = [''t1'' \<mapsto> InstanceVal instance_t1],
      vmCapsStorage = [''eu1'' \<mapsto> VMCapsVal [(''Standard_D2'', [(''vCPUs'', ''2'')])]],
      queue = [Add ''t1''], events = [],
      calls = [GetResourceGroup, GetVMResourceSkus], redeliveries = []\<rparr>"
  by (simp add: state_t1_def clusterHandler_step_def cluster_t1_def ienv_no_rg_def ienv_ok_def
      Let_def recover_instance_def NewAzureProvider_def Get_def Put_def persist_and_admit_def
      init_vmcaps_def instance_t1_def)

lemma state_t1_failed_step:
  "worker_cycle params5 env_not_found ''t1'' state_t1 = Inr state_t1_failed"
  by (simp add: state_t1_failed_def state_t1_eq worker_cycle_def Get_def Let_def
      resolve_vmcaps_def fetch_or_skip_def getMetrics_def handle_result_def classify_error_def
      env_not_found_def env_ok_def instance_t1_def cluster_t1_def
      StatusNotFound_def params5_def contains_not_found Put_def Delete_def)

lemma reachable_state_t1_failed: "reachable params5 state_t1_failed"
proof -
  have "reachable params5 state_t1"
    unfolding state_t1_def by (rule reachable.intake[OF reachable.init])
  then show ?thesis by (rule reachable.work[OF _ state_t1_failed_step])
qed

lemma eventhub_down_cycle:
  "worker_cycle params5 env_eventhub_down ''c1'' state_c1 =
     Inr (state_c1\<lparr>queue := queue state_c1 @ [Done ''c1'', AddAfter ''c1''],
                   calls := calls state_c1 @ [FetchCompute, FetchNetwork, FetchEventHub]\<rparr>)"
  by (simp add: state_c1_eq worker_cycle_def Get_def Let_def
      resolve_vmcaps_def fetch_or_skip_def getMetrics_def handle_result_def classify_error_def
      env_eventhub_down_def env_ok_def instance_c1_rg_def instance_c1_def cluster_c1_def
      Put_def)

section \<open>The metrics fetch\<close>

text \<open>
  Claim C7.  \<open>getMetrics\<close> makes its sub-fetches in the order compute, network,
  event hub: the calls made are the first one, two or three of that list.  The network
  fetch is made exactly when the compute fetch succeeded, and the event-hub fetch exactly
  when both succeeded and the instance has an event-hub resource group name.  The error of
  the first sub-fetch that fails is the result, and no event data is returned then.  Event
  data is returned only when every sub-fetch that is due succeeded, and it is assembled
  from what they returned: the identifier of the cluster and the compute and networking
  data, with the zeroed event-hub section when no event-hub resource group name is known,
  and with the name and the event-hub data otherwise.  A worker cycle that runs this fetch
  and completes sends the returned data, if the encoder accepts it, and after a failed
  fetch nothing but the last event: what the sub-fetches returned before the failure is
  not sent.
\<close>

theorem getMetrics_sequential_fail_fast:
  assumes "getMetrics env i vm = (cs, r)"
  shows "(\<exists>n\<in>{1, 2, 3}. cs = take n [FetchCompute, FetchNetwork, FetchEventHub])
       \<and> (FetchEventHub \<in> set cs \<longrightarrow> eventHubResourceGroupName i \<noteq> [])
       \<and> (\<forall>e. compute_res env vm = Inl e \<longrightarrow> r = Inl e \<and> cs = [FetchCompute])
       \<and> (\<forall>c. compute_res env vm = Inr c \<longrightarrow> FetchNetwork \<in> set cs)
       \<and> (\<forall>c e. compute_res env vm = Inr c \<longrightarrow> network_res env = Inl e \<longrightarrow>
              r = Inl e \<and> cs = [FetchCompute, FetchNetwork])
       \<and> (\<forall>c n. compute_res env vm = Inr c \<longrightarrow> network_res env = Inr n \<longrightarrow>
              eventHubResourceGroupName i \<noteq> [] \<longrightarrow>
              cs = [FetchCompute, FetchNetwork, FetchEventHub])
       \<and> (\<forall>c n e. compute_res env vm = Inr c \<longrightarrow> network_res env = Inr n \<longrightarrow>
              eventHubResourceGroupName i \<noteq> [] \<longrightarrow> eventhub_res env = Inl e \<longrightarrow> r = Inl e)
       \<and> (\<forall>c n h. compute_res env vm = Inr c \<longrightarrow> network_res env = Inr n \<longrightarrow>
              eventHubResourceGroupName i \<noteq> [] \<longrightarrow> eventhub_res env = Inr h \<longrightarrow>
              r = Inr \<lparr>ResourceGroups = [TechnicalID (cluster i), eventHubResourceGroupName i],
                      Compute = c, Networking = n, EventHub = h\<rparr>)
       \<and> (\<forall>c n. compute_res env vm = Inr c \<longrightarrow> network_res env = Inr n \<longrightarrow>
              eventHubResourceGroupName i = [] \<longrightarrow>
              cs = [FetchCompute, FetchNetwork]
              \<and> r = Inr \<lparr>ResourceGroups = [TechnicalID (cluster i)],
                        Compute = c, Networking = n, EventHub = emptyEventHub\<rparr>)
       \<and> (\<forall>ed. r = Inr ed \<longrightarrow>
              compute_res env vm = Inr (Compute ed) \<and> network_res env = Inr (Networking ed)
              \<and> (eventHubResourceGroupName i \<noteq> [] \<longrightarrow> eventhub_res env = Inr (EventHub ed))
              \<and> (eventHubResourceGroupName i = [] \<longrightarrow> EventHub ed = emptyEventHub))
       \<and> (\<forall>P a k a'. instanceStorage a k = Some (InstanceVal i) \<longrightarrow> \<not> retryBackoff i \<longrightarrow>
              vm = resolve_vmcaps a i \<longrightarrow> worker_cycle P env k a = Inr a' \<longrightarrow>
              events a' = events a @
                (case r of
                   Inr ed \<Rightarrow>
                     (case marshal P ed of None \<Rightarrow> []
                      | Some raw \<Rightarrow> [\<lparr>Datatenant = SubAccountID (cluster i), Data = raw\<rparr>])
                 | Inl e \<Rightarrow>
                     (case lastEvent i of None \<Rightarrow> []
                      | Some ed \<Rightarrow>
                          (case marshal P ed of None \<Rightarrow> []
                           | Some raw \<Rightarrow>
                               [\<lparr>Datatenant = SubAccountID (cluster i), Data = raw\<rparr>]))))"
proof -
  have fetch: "(\<exists>n\<in>{1, 2, 3}. cs = take n [FetchCompute, FetchNetwork, FetchEventHub])
       \<and> (FetchEventHub \<in> set cs \<longrightarrow> eventHubResourceGroupName i \<noteq> [])
       \<and> (\<forall>e. compute_res env vm = Inl e \<longrightarrow> r = Inl e \<and> cs = [FetchCompute])
       \<and> (\<forall>c. compute_res env vm = Inr c \<longrightarrow> FetchNetwork \<in> set cs)
       \<and> (\<forall>c e. compute_res env vm = Inr c \<longrightarrow> network_res env = Inl e \<longrightarrow>
              r = Inl e \<and> cs = [FetchCompute, FetchNetwork])
       \<and> (\<forall>c n. compute_res env vm = Inr c \<longrightarrow> network_res env = Inr n \<longrightarrow>
              eventHubResourceGroupName i \<noteq> [] \<longrightarrow>
              cs = [FetchCompute, FetchNetwork, FetchEventHub])
       \<and> (\<forall>c n e. compute_res env vm = Inr c \<longrightarrow> network_res env = Inr n \<longrightarrow>
              eventHubResourceGroupName i \<noteq> [] \<longrightarrow> eventhub_res env = Inl e \<longrightarrow> r = Inl e)
       \<and> (\<forall>c n h. compute_res env vm = Inr c \<longrightarrow> network_res env = Inr n \<longrightarrow>
              eventHubResourceGroupName i \<noteq> [] \<longrightarrow> eventhub_res env = Inr h \<longrightarrow>
              r = Inr \<lparr>ResourceGroups = [TechnicalID (cluster i), eventHubResourceGroupName i],
                      Compute = c, Networking = n, EventHub = h\<rparr>)
       \<and> (\<forall>c n. compute_res env vm = Inr c \<longrightarrow> network_res env = Inr n \<longrightarrow>
              eventHubResourceGroupName i = [] \<longrightarrow>
              cs = [FetchCompute, FetchNetwork]
              \<and> r = Inr \<lparr>ResourceGroups = [TechnicalID (cluster i)],
                        Compute = c, Networking = n, EventHub = emptyEventHub\<rparr>)
       \<and> (\<forall>ed. r = Inr ed \<longrightarrow>
              compute_res env vm = Inr (Compute ed) \<and> network_res env = Inr (Networking ed)
              \<and> (eventHubResourceGroupName i \<noteq> [] \<longrightarrow> eventhub_res env = Inr (EventHub ed))
              \<and> (eventHubResourceGroupName i = [] \<longrightarrow> EventHub ed = emptyEventHub))"
    using assms
    by (auto simp: getMetrics_def Let_def split: sum.splits if_splits)
  have sent: "\<forall>P a k a'. instanceStorage a k = Some (InstanceVal i) \<longrightarrow> \<not> retryBackoff i \<longrightarrow>
              vm = resolve_vmcaps a i \<longrightarrow> worker_cycle P env k a = Inr a' \<longrightarrow>
              events a' = events a @
                (case r of
                   Inr ed \<Rightarrow>
                     (case marshal P ed of None \<Rightarrow> []
                      | Some raw \<Rightarrow> [\<lparr>Datatenant = SubAccountID (cluster i), Data = raw\<rparr>])
                 | Inl e \<Rightarrow>
                     (case lastEvent i of None \<Rightarrow> []
                      | Some ed \<Rightarrow>
                          (case marshal P ed of None \<Rightarrow> []
                           | Some raw \<Rightarrow>
                               [\<lparr>Datatenant = SubAccountID (cluster i), Data = raw\<rparr>])))"
  proof (intro allI impI)
    fix P a k a'
    assume st: "instanceStorage a k = Some (InstanceVal i)" and nb: "\<not> retryBackoff i"
      and vm: "vm = resolve_vmcaps a i" and w: "worker_cycle P env k a = Inr a'"
    from assms vm have g: "getMetrics env i (resolve_vmcaps a i) = (cs, r)" by simp
    show "events a' = events a @
                (case r of
                   Inr ed \<Rightarrow>
                     (case marshal P ed of None \<Rightarrow> []
                      | Some raw \<Rightarrow> [\<lparr>Datatenant = SubAccountID (cluster i), Data = raw\<rparr>])
                 | Inl e \<Rightarrow>
                     (case lastEvent i of None \<Rightarrow> []
                      | Some ed \<Rightarrow>
                          (case marshal P ed of None \<Rightarrow> []
                           | Some raw \<Rightarrow>
                               [\<lparr>Datatenant = SubAccountID (cluster i), Data = raw\<rparr>])))"
      by (rule worker_cycle_events[OF st nb g w])
  qed
  from fetch sent show ?thesis by (elim conjE) (intro conjI; assumption)
qed

theorem getMetrics_sequential_fail_fast_witness:
  "getMetrics env_ok instance_c1 [] =
     ([FetchCompute, FetchNetwork],
      Inr \<lparr>ResourceGroups = [''c1''], Compute = 11, Networking = 22, EventHub = emptyEventHub\<rparr>)
   \<and> getMetrics env_ok instance_c1_rg [] =
     ([FetchCompute, FetchNetwork, FetchEventHub], Inr eventdata_c1)
   \<and> getMetrics env_throttled instance_c1_rg [] =
     ([FetchCompute], Inl (DetailedError 429 (Some ''Code=TooManyRequests'')))
   \<and> getMetrics env_network_down instance_c1_rg [] =
     ([FetchCompute, FetchNetwork], Inl (PlainError ''context deadline exceeded''))
   \<and> getMetrics env_eventhub_down instance_c1_rg [] =
     ([FetchCompute, FetchNetwork, FetchEventHub], Inl (PlainError ''context deadline exceeded''))
   \<and> instanceStorage state_c1 ''c1'' = Some (InstanceVal instance_c1_rg)
   \<and> (\<exists>a'. worker_cycle params5 env_eventhub_down ''c1'' state_c1 = Inr a'
          \<and> events a' = events state_c1)"
proof -
  obtain cs1 r1 where 1: "getMetrics env_ok instance_c1 [] = (cs1, r1)"
    by (metis surj_pair)
  obtain cs2 r2 where 2: "getMetrics env_ok instance_c1_rg [] = (cs2, r2)"
    by (metis surj_pair)
  obtain cs3 r3 where 3: "getMetrics env_throttled instance_c1_rg [] = (cs3, r3)"
    by (metis surj_pair)
  obtain cs4 r4 where 4: "getMetrics env_network_down instance_c1_rg [] = (cs4, r4)"
    by (metis surj_pair)
  obtain cs5 r5 where 5: "getMetrics env_eventhub_down instance_c1_rg [] = (cs5, r5)"
    by (metis surj_pair)
  have e1: "cs1 = [FetchCompute, FetchNetwork]"
    "r1 = Inr \<lparr>ResourceGroups = [''c1''], Compute = 11, Networking = 22,
               EventHub = emptyEventHub\<rparr>"
    using getMetrics_sequential_fail_fast[OF 1]
    by (simp_all add: env_ok_def instance_c1_def cluster_c1_def)
  have e2: "cs2 = [FetchCompute, FetchNetwork, FetchEventHub]" "r2 = Inr eventdata_c1"
    using getMetrics_sequential_fail_fast[OF 2]
    by (simp_all add: env_ok_def instance_c1_rg_def instance_c1_def cluster_c1_def
        eventdata_c1_def)
  have e3: "cs3 = [FetchCompute]"
    "r3 = Inl (DetailedError 429 (Some ''Code=TooManyRequests''))"
    using getMetrics_sequential_fail_fast[OF 3]
    by (simp_all add: env_throttled_def env_ok_def)
  have e4: "cs4 = [FetchCompute, FetchNetwork]"
    "r4 = Inl (PlainError ''context deadline exceeded'')"
    using getMetrics_sequential_fail_fast[OF 4]
    by (simp_all add: env_network_down_def env_ok_def)
  have e5: "cs5 = [FetchCompute, FetchNetwork, FetchEventHub]"
    "r5 = Inl (PlainError ''context deadline exceeded'')"
    using getMetrics_sequential_fail_fast[OF 5]
    by (simp_all add: env_eventhub_down_def env_ok_def instance_c1_rg_def instance_c1_def)
  obtain cs6 r6 where 6: "getMetrics env_eventhub_down instance_c1_rg
      (resolve_vmcaps state_c1 instance_c1_rg) = (cs6, r6)"
    by (metis surj_pair)
  have e6: "r6 = Inl (PlainError ''context deadline exceeded'')"
    using getMetrics_sequential_fail_fast[OF 6]
    by (simp add: env_eventhub_down_def env_ok_def instance_c1_rg_def instance_c1_def)
  have st: "instanceStorage state_c1 ''c1'' = Some (InstanceVal instance_c1_rg)"
    by (simp add: state_c1_eq)
  have nb: "\<not> retryBackoff instance_c1_rg" "lastEvent instance_c1_rg = None"
    by (simp_all add: instance_c1_rg_def instance_c1_def)
  have e7: "\<exists>a'. worker_cycle params5 env_eventhub_down ''c1'' state_c1 = Inr a'
          \<and> events a' = events state_c1"
    using getMetrics_sequential_fail_fast[OF 6] st nb e6 eventhub_down_cycle
    by simp
  show ?thesis using 1 2 3 4 5 e1 e2 e3 e4 e5 st e7 by simp
qed

section \<open>A worker cycle without an instance\<close>

text \<open>
  Claim C6.  When the dequeued identifier has no entry in the instance store, the worker
  cycle completes, makes no call to the provider client, sends no event, leaves both
  stores as they are, schedules nothing, and the only operation on the queue is the
  acknowledgement of the item: the identifier is not added again.
\<close>

theorem worker_cycle_missing_instance:
  assumes "instanceStorage a clusterid = None"
  shows "\<exists>a'. worker_cycle P env clusterid a = Inr a'
       \<and> calls a' = calls a
       \<and> events a' = events a
       \<and> instanceStorage a' = instanceStorage a
       \<and> vmCapsStorage a' = vmCapsStorage a
       \<and> redeliveries a' = redeliveries a
       \<and> queue a' = queue a @ [Done clusterid]"
  using assms by (simp add: worker_cycle_def Get_def)

theorem worker_cycle_missing_instance_witness:
  "instanceStorage state_c1_deleted ''c1'' = None
   \<and> AddAfter ''c1'' \<in> set (queue state_c1_deleted)
   \<and> (\<exists>a'. worker_cycle params5 env_ok ''c1'' state_c1_deleted = Inr a'
         \<and> calls a' = calls state_c1_deleted
         \<and> events a' = events state_c1_deleted
         \<and> instanceStorage a' = Map.empty
         \<and> vmCapsStorage a' = vmCapsStorage state_c1_deleted
         \<and> queue a' = queue state_c1_deleted @ [Done ''c1''])"
proof -
  have h: "instanceStorage state_c1_deleted ''c1'' = None"
    by (simp add: state_c1_deleted_eq)
  have q: "AddAfter ''c1'' \<in> set (queue state_c1_deleted)"
    by (simp add: state_c1_deleted_eq state_c1_polled_def)
  have e: "instanceStorage state_c1_deleted = Map.empty"
    by (simp add: state_c1_deleted_eq)
  show ?thesis
    using h q e worker_cycle_missing_instance[OF h, of params5 env_ok]
    by auto
qed

section \<open>Resource group not found\<close>

text \<open>
  Claim C1, at the cycle that reaches the maximum.  The cluster \<open>c1\<close> has failed four
  times with "resource group not found", and the maximum is five.  The fifth failure
  increments the counter to five, and the classification deletes the instance; but the
  \<open>Put\<close> at the end of the cycle stores it again and the identifier is added to the
  queue again, so that the instance is in the store at the end of the cycle, with the
  counter at the maximum.
\<close>

theorem not_found_at_maximum_not_removed:
  "maxRetryAttempts params5 = 5
   \<and> instanceStorage (state_c1_not_found 4) ''c1'' =
       Some (InstanceVal (instance_c1_rg\<lparr>retryAttempts := 4\<rparr>))
   \<and> fetch_or_skip env_not_found (instance_c1_rg\<lparr>retryAttempts := 4\<rparr>)
         (resolve_vmcaps (state_c1_not_found 4) (instance_c1_rg\<lparr>retryAttempts := 4\<rparr>)) =
       (instance_c1_rg\<lparr>retryAttempts := 4\<rparr>, [FetchCompute],
        Inl (DetailedError StatusNotFound
               (Some ''Code=ResourceGroupNotFound Message=no such group'')))
   \<and> strings_Contains ''Code=ResourceGroupNotFound Message=no such group''
         (responseErrCodeResourceGroupNotFound params5)
   \<and> worker_cycle params5 env_not_found ''c1'' (state_c1_not_found 4) =
       Inr (state_c1_not_found 5)
   \<and> instanceStorage (state_c1_not_found 5) ''c1'' =
       Some (InstanceVal (instance_c1_rg\<lparr>retryAttempts := 5\<rparr>))
   \<and> queue (state_c1_not_found 5) =
       queue (state_c1_not_found 4) @ [Done ''c1'', AddAfter ''c1'']"
proof -
  have 1: "maxRetryAttempts params5 = 5" by (simp add: params5_def)
  have 2: "instanceStorage (state_c1_not_found 4) ''c1'' =
       Some (InstanceVal (instance_c1_rg\<lparr>retryAttempts := 4\<rparr>))"
    by (simp add: not_found_counter)
  have 3: "fetch_or_skip env_not_found (instance_c1_rg\<lparr>retryAttempts := 4\<rparr>)
         (resolve_vmcaps (state_c1_not_found 4) (instance_c1_rg\<lparr>retryAttempts := 4\<rparr>)) =
       (instance_c1_rg\<lparr>retryAttempts := 4\<rparr>, [FetchCompute],
        Inl (DetailedError StatusNotFound
               (Some ''Code=ResourceGroupNotFound Message=no such group'')))"
    by (simp add: fetch_or_skip_def getMetrics_def env_not_found_def env_ok_def
        instance_c1_rg_def instance_c1_def StatusNotFound_def)
  have 4: "strings_Contains ''Code=ResourceGroupNotFound Message=no such group''
         (responseErrCodeResourceGroupNotFound params5)"
    by (simp add: params5_def contains_not_found)
  have 5: "worker_cycle params5 env_not_found ''c1'' (state_c1_not_found 4) =
       Inr (state_c1_not_found 5)"
    using not_found_cycle[of 4] by (simp add: eval_nat_numeral)
  have 6: "instanceStorage (state_c1_not_found 5) ''c1'' =
       Some (InstanceVal (instance_c1_rg\<lparr>retryAttempts := 5\<rparr>))"
    by (simp add: not_found_counter)
  have 7: "queue (state_c1_not_found 5) =
       queue (state_c1_not_found 4) @ [Done ''c1'', AddAfter ''c1'']"
    by (simp add: state_c1_not_found_def eval_nat_numeral)
  show ?thesis using 1 2 3 4 5 6 7 by blast
qed

section \<open>Fetch failures\<close>

text \<open>A worker cycle panics exactly in the classification of a 404 without original error.\<close>

lemma classify_error_panics:
  "classify_error P err s i = Inl p \<longleftrightarrow> err = DetailedError StatusNotFound None"
proof (cases err)
  case (DetailedError code orig)
  show ?thesis
  proof (cases orig)
    case None
    then show ?thesis using DetailedError
      by (cases p) (simp add: classify_error_def)
  next
    case (Some msg)
    then show ?thesis using DetailedError
      by (simp add: classify_error_def Let_def)
  qed
next
  case (PlainError x)
  then show ?thesis by (simp add: classify_error_def)
qed

lemma handle_result_panics:
  "handle_result P r s i = Inl p \<longleftrightarrow> r = Inl (DetailedError StatusNotFound None)"
proof (cases r)
  case (Inl err)
  show ?thesis
  proof (cases "classify_error P err s i")
    case l: (Inl q)
    have "q = p" by (cases p; cases q) simp
    with l Inl classify_error_panics[of P err s i q] show ?thesis
      by (simp add: handle_result_def)
  next
    case r: (Inr t)
    with Inl classify_error_panics[of P err s i p] show ?thesis
      by (simp add: handle_result_def split: prod.splits)
  qed
next
  case (Inr ed)
  then show ?thesis by (simp add: handle_result_def)
qed

lemma worker_cycle_completes:
  assumes "instanceStorage a k = Some (InstanceVal i)"
    and "snd (snd (fetch_or_skip env i (resolve_vmcaps a i))) \<noteq>
           Inl (DetailedError StatusNotFound None)"
  shows "\<exists>a'. worker_cycle P env k a = Inr a'"
proof (rule worker_cycle_present[OF assms(1), of env P])
  fix i1 cs r p
  assume "fetch_or_skip env i (resolve_vmcaps a i) = (i1, cs, r)"
    and "handle_result P r (instanceStorage a) i1 = Inl p"
  with assms(2) show ?thesis by (simp add: handle_result_panics)
next
  fix i1 cs r s2 i2 ed i3 evs
  assume "worker_cycle P env k a =
       Inr (a\<lparr>instanceStorage := Put s2 (TechnicalID (cluster i3)) (InstanceVal i3),
         calls := calls a @ cs,
         events := events a @ evs,
         queue := queue a @ [Done k] @ (if \<not> shuttingDown env then [AddAfter k] else [])\<rparr>)"
  then show ?thesis by blast
qed

text \<open>
  The fallback of a cycle whose fetch fails, for every failure that the classification
  survives: with a last event exactly one event is sent, with the serialisation of the
  last event as payload, and the last event stays; without one nothing is sent.
\<close>

lemma fetch_failure_fallback:
  assumes "reachable P a"
    and "instanceStorage a k = Some (InstanceVal i)"
    and "fetch_or_skip env i (resolve_vmcaps a i) = (i1, cs, Inl err)"
    and "err \<noteq> DetailedError StatusNotFound None"
  shows "\<exists>a'. worker_cycle P env k a = Inr a'
       \<and> (lastEvent i = None \<longrightarrow> events a' = events a)
       \<and> (\<forall>ed. lastEvent i = Some ed \<longrightarrow>
            (\<exists>raw. marshal P ed = Some raw
               \<and> events a' = events a @ [\<lparr>Datatenant = SubAccountID (cluster i), Data = raw\<rparr>]))
       \<and> (\<exists>i'. instanceStorage a' k = Some (InstanceVal i') \<and> lastEvent i' = lastEvent i)"
proof -
  from reachable_invariants[OF assms(1)] have ky: "keyed a" and sd: "sendable P a" by simp_all
  from ky assms(2) have t: "TechnicalID (cluster i) = k" by (simp add: keyed_def)
  from worker_cycle_completes[OF assms(2), of env P] assms(3,4)
  obtain a' where a': "worker_cycle P env k a = Inr a'" by auto
  from assms(2) a' obtain i1' cs' r s2 i2 ed i3 evs where
    f: "fetch_or_skip env i (resolve_vmcaps a i) = (i1', cs', r)" and
    h: "handle_result P r (instanceStorage a) i1' = Inr (s2, i2, ed)" and
    s: "(case ed of None \<Rightarrow> (i2, []) | Some e \<Rightarrow> sendMetrics P i2 e) = (i3, evs)" and
    w: "a' = a\<lparr>instanceStorage := Put s2 (TechnicalID (cluster i3)) (InstanceVal i3),
         calls := calls a @ cs',
         events := events a @ evs,
         queue := queue a @ [Done k] @ (if \<not> shuttingDown env then [AddAfter k] else [])\<rparr>"
    by (rule worker_cycle_completed)
  from f assms(3) have r: "r = Inl err" by simp
  have l2: "lastEvent i2 = lastEvent i" and c2: "cluster i2 = cluster i"
    using fetch_or_skip_fields(1,2)[OF f] handle_result_fields(1,4)[OF h] by simp_all
  have ed: "ed = lastEvent i"
    using h r l2 by (auto simp: handle_result_def split: sum.splits prod.splits)
  have c3: "cluster i3 = cluster i" using send_stage_fields(1)[OF s] c2 by simp
  have none: "lastEvent i = None \<longrightarrow> evs = [] \<and> lastEvent i3 = lastEvent i"
    using s ed l2 by auto
  have some: "\<forall>e. lastEvent i = Some e \<longrightarrow>
      (\<exists>raw. marshal P e = Some raw \<and> evs = [\<lparr>Datatenant = SubAccountID (cluster i), Data = raw\<rparr>])
      \<and> lastEvent i3 = lastEvent i"
  proof (intro allI impI)
    fix e assume e: "lastEvent i = Some e"
    with sd assms(2) obtain raw where raw: "marshal P e = Some raw"
      unfolding sendable_def by blast
    from s ed e raw c2
    show "(\<exists>raw. marshal P e = Some raw
             \<and> evs = [\<lparr>Datatenant = SubAccountID (cluster i), Data = raw\<rparr>])
      \<and> lastEvent i3 = lastEvent i"
      by (auto simp: sendMetrics_def)
  qed
  have l3: "lastEvent i3 = lastEvent i" using none some by (cases "lastEvent i") auto
  show ?thesis using a' w none some c3 t l3 by (simp add: Put_def)
qed

text \<open>A successful fetch whose data the encoder accepts becomes the last event.\<close>

lemma fetch_success_sets_lastEvent:
  assumes "reachable P a"
    and "instanceStorage a k = Some (InstanceVal i)"
    and "fetch_or_skip env i (resolve_vmcaps a i) = (i1, cs, Inr ed)"
    and "marshal P ed = Some raw"
  shows "\<exists>a'. worker_cycle P env k a = Inr a'
       \<and> events a' = events a @ [\<lparr>Datatenant = SubAccountID (cluster i), Data = raw\<rparr>]
       \<and> (\<exists>i'. instanceStorage a' k = Some (InstanceVal i') \<and> lastEvent i' = Some ed)"
proof -
  from reachable_invariants[OF assms(1)] have ky: "keyed a" by simp
  from ky assms(2) have t: "TechnicalID (cluster i) = k" by (simp add: keyed_def)
  have c1: "cluster i1 = cluster i" using fetch_or_skip_fields(1)[OF assms(3)] .
  show ?thesis
    using assms(2,3,4) t c1
    by (simp add: worker_cycle_def Get_def Let_def handle_result_def sendMetrics_def Put_def)
qed

text \<open>
  Claim C2, at a failure that the fallback misses.  The instance of \<open>c1\<close> has a last
  event.  The fetch fails with a detailed error of status 404 that has no original
  error; the classification calls \<open>Error\<close> on the nil original and the cycle panics
  before the fallback: no event is sent.
\<close>

theorem fallback_lost_on_nil_original:
  "reachable params5 state_c1_polled
   \<and> instanceStorage state_c1_polled ''c1'' =
       Some (InstanceVal (instance_c1_rg\<lparr>lastEvent := Some eventdata_c1\<rparr>))
   \<and> fetch_or_skip env_not_found_nil (instance_c1_rg\<lparr>lastEvent := Some eventdata_c1\<rparr>)
         (resolve_vmcaps state_c1_polled (instance_c1_rg\<lparr>lastEvent := Some eventdata_c1\<rparr>)) =
       (instance_c1_rg\<lparr>lastEvent := Some eventdata_c1\<rparr>, [FetchCompute],
        Inl (DetailedError StatusNotFound None))
   \<and> worker_cycle params5 env_not_found_nil ''c1'' state_c1_polled = Inl NilPointerDereference"
proof -
  have 2: "instanceStorage state_c1_polled ''c1'' =
       Some (InstanceVal (instance_c1_rg\<lparr>lastEvent := Some eventdata_c1\<rparr>))"
    by (simp add: state_c1_polled_def)
  have 3: "fetch_or_skip env_not_found_nil (instance_c1_rg\<lparr>lastEvent := Some eventdata_c1\<rparr>)
         (resolve_vmcaps state_c1_polled (instance_c1_rg\<lparr>lastEvent := Some eventdata_c1\<rparr>)) =
       (instance_c1_rg\<lparr>lastEvent := Some eventdata_c1\<rparr>, [FetchCompute],
        Inl (DetailedError StatusNotFound None))"
    by (simp add: fetch_or_skip_def getMetrics_def env_not_found_nil_def env_ok_def
        instance_c1_rg_def instance_c1_def StatusNotFound_def)
  have 4: "worker_cycle params5 env_not_found_nil ''c1'' state_c1_polled =
       Inl NilPointerDereference"
    using 2 3 by (simp add: worker_cycle_def Get_def Let_def handle_result_def
        classify_error_def)
  show ?thesis using reachable_state_c1_polled 2 3 4 by blast
qed

section \<open>Rate limits\<close>








section \<open>The retry counter\<close>




section \<open>Notifications\<close>

lemma recover_instance_no_name:
  assumes "\<forall>i. instanceStorage a (TechnicalID cl) = Some (InstanceVal i) \<longrightarrow>
             eventHubResourceGroupName i = []"
  shows "eventHubResourceGroupName (recover_instance a cl) = []"
    and "resolved_name env a cl = (case rg_res env of Inl e \<Rightarrow> [] | Inr n \<Rightarrow> n)"
proof -
  show n: "eventHubResourceGroupName (recover_instance a cl) = []"
  proof (cases "\<exists>i. instanceStorage a (TechnicalID cl) = Some (InstanceVal i)")
    case True
    then obtain i where i: "instanceStorage a (TechnicalID cl) = Some (InstanceVal i)" by blast
    with assms have "eventHubResourceGroupName i = []" by blast
    then show ?thesis by (simp add: recover_instance_known[OF i])
  next
    case False
    then show ?thesis by (simp add: recover_instance_unknown)
  qed
  show "resolved_name env a cl = (case rg_res env of Inl e \<Rightarrow> [] | Inr n \<Rightarrow> n)"
    using n by (simp add: resolved_name_def)
qed

text \<open>
  Claim C8.  A notification that is not a deletion, for which the client is constructed,
  finds no event-hub resource group name in the store, and the lookup of the resource
  group fails.  For a cluster that is not trial the notification is scheduled for
  re-delivery; the instance is not persisted and the identifier is not admitted: both
  stores and the queue are as before.  For a trial cluster the instance is persisted with
  an empty event-hub resource group name and the identifier is admitted; nothing is
  scheduled.
\<close>

theorem lookup_failure_defers_or_tolerates:
  assumes "\<not> Deleted cl"
    and "newClient_res env = Inr c"
    and "\<forall>i. instanceStorage a (TechnicalID cl) = Some (InstanceVal i) \<longrightarrow>
           eventHubResourceGroupName i = []"
    and "rg_res env = Inl e"
  shows "(\<not> Trial cl \<longrightarrow>
            redeliveries (clusterHandler_step env cl a) = redeliveries a @ [cl]
          \<and> instanceStorage (clusterHandler_step env cl a) = instanceStorage a
          \<and> vmCapsStorage (clusterHandler_step env cl a) = vmCapsStorage a
          \<and> queue (clusterHandler_step env cl a) = queue a
          \<and> calls (clusterHandler_step env cl a) = calls a @ [GetResourceGroup])
       \<and> (Trial cl \<longrightarrow>
            instanceStorage (clusterHandler_step env cl a) =
              Put (instanceStorage a) (TechnicalID cl)
                (InstanceVal \<lparr>cluster = cl, client = Some c, eventHubResourceGroupName = [],
                   lastEvent = lastEvent (recover_instance a cl),
                   retryAttempts = 0, retryBackoff = False\<rparr>)
          \<and> queue (clusterHandler_step env cl a) = queue a @ [Add (TechnicalID cl)]
          \<and> redeliveries (clusterHandler_step env cl a) = redeliveries a)"
proof (intro conjI impI)
  assume nt: "\<not> Trial cl"
  have d: "clusterHandler_step env cl a =
           a\<lparr>calls := calls a @ [GetResourceGroup], redeliveries := redeliveries a @ [cl]\<rparr>"
    using assms(1,2) recover_instance_no_name(1)[OF assms(3)] assms(4) nt
    by (rule clusterHandler_step_deferred)
  show "redeliveries (clusterHandler_step env cl a) = redeliveries a @ [cl]"
    "instanceStorage (clusterHandler_step env cl a) = instanceStorage a"
    "vmCapsStorage (clusterHandler_step env cl a) = vmCapsStorage a"
    "queue (clusterHandler_step env cl a) = queue a"
    "calls (clusterHandler_step env cl a) = calls a @ [GetResourceGroup]"
    by (simp_all add: d)
next
  assume tr: "Trial cl"
  then have c: "eventHubResourceGroupName (recover_instance a cl) \<noteq> [] \<or> Trial cl
      \<or> (\<exists>n. rg_res env = Inr n)" by simp
  have r: "resolved_name env a cl = []"
    using recover_instance_no_name(2)[OF assms(3), of env] assms(4) by simp
  show "instanceStorage (clusterHandler_step env cl a) =
              Put (instanceStorage a) (TechnicalID cl)
                (InstanceVal \<lparr>cluster = cl, client = Some c, eventHubResourceGroupName = [],
                   lastEvent = lastEvent (recover_instance a cl),
                   retryAttempts = 0, retryBackoff = False\<rparr>)"
    using clusterHandler_step_persisted(1)[OF assms(1,2) c] r by simp
  show "queue (clusterHandler_step env cl a) = queue a @ [Add (TechnicalID cl)]"
    by (rule clusterHandler_step_persisted(2)[OF assms(1,2) c])
  show "redeliveries (clusterHandler_step env cl a) = redeliveries a"
    by (rule clusterHandler_step_persisted(3)[OF assms(1,2) c])
qed

theorem lookup_failure_defers_or_tolerates_witness:
  "\<not> Deleted cluster_c1 \<and> \<not> Trial cluster_c1 \<and> newClient_res ienv_no_rg = Inr 0
   \<and> rg_res ienv_no_rg = Inl (DetailedError 404 (Some ''no resource group with the tag''))
   \<and> instanceStorage NewAzureProvider (TechnicalID cluster_c1) = None
   \<and> redeliveries (clusterHandler_step ienv_no_rg cluster_c1 NewAzureProvider) = [cluster_c1]
   \<and> instanceStorage (clusterHandler_step ienv_no_rg cluster_c1 NewAzureProvider) = Map.empty
   \<and> queue (clusterHandler_step ienv_no_rg cluster_c1 NewAzureProvider) = []
   \<and> \<not> Deleted cluster_t1 \<and> Trial cluster_t1
   \<and> instanceStorage NewAzureProvider (TechnicalID cluster_t1) = None
   \<and> instanceStorage (clusterHandler_step ienv_no_rg cluster_t1 NewAzureProvider) =
       [''t1'' \<mapsto> InstanceVal instance_t1]
   \<and> queue (clusterHandler_step ienv_no_rg cluster_t1 NewAzureProvider) = [Add ''t1'']
   \<and> redeliveries (clusterHandler_step ienv_no_rg cluster_t1 NewAzureProvider) = []"
proof -
  have d: "\<not> Deleted cluster_c1" "\<not> Trial cluster_c1" "\<not> Deleted cluster_t1" "Trial cluster_t1"
    by (simp_all add: cluster_c1_def cluster_t1_def)
  have n: "newClient_res ienv_no_rg = Inr 0"
    "rg_res ienv_no_rg = Inl (DetailedError 404 (Some ''no resource group with the tag''))"
    by (simp_all add: ienv_no_rg_def ienv_ok_def)
  have e: "\<forall>i. instanceStorage NewAzureProvider (TechnicalID cluster_c1) = Some (InstanceVal i)
             \<longrightarrow> eventHubResourceGroupName i = []"
    "\<forall>i. instanceStorage NewAzureProvider (TechnicalID cluster_t1) = Some (InstanceVal i)
             \<longrightarrow> eventHubResourceGroupName i = []"
    by (simp_all add: NewAzureProvider_def)
  have l: "lastEvent (recover_instance NewAzureProvider cluster_t1) = None"
    by (simp add: recover_instance_def NewAzureProvider_def Get_def)
  show ?thesis
    using lookup_failure_defers_or_tolerates[OF d(1) n(1) e(1) n(2)]
      lookup_failure_defers_or_tolerates[OF d(3) n(1) e(2) n(2)] d n l
    by (simp add: NewAzureProvider_def Put_def instance_t1_def cluster_t1_def)
qed

text \<open>
  Claim C10, as stated, at a notification that is deferred.  The trial cluster \<open>t1\<close> was
  persisted without an event-hub resource group name, and one worker cycle has failed
  with "resource group not found": the counter of the cached instance is 1.  A
  notification for the same identifier, not a deletion and no longer trial, whose lookup
  of the resource group fails, is scheduled for re-delivery and leaves the cached instance
  as it is: the counter stays at 1.
\<close>

theorem deferred_notification_keeps_retry_state:
  "reachable params5 state_t1_failed
   \<and> instanceStorage state_t1_failed ''t1'' =
       Some (InstanceVal (instance_t1\<lparr>retryAttempts := 1\<rparr>))
   \<and> TechnicalID cluster_t1_paid = ''t1'' \<and> \<not> Deleted cluster_t1_paid
   \<and> instanceStorage (clusterHandler_step ienv_no_rg cluster_t1_paid state_t1_failed) ''t1'' =
       Some (InstanceVal (instance_t1\<lparr>retryAttempts := 1\<rparr>))
   \<and> redeliveries (clusterHandler_step ienv_no_rg cluster_t1_paid state_t1_failed) =
       [cluster_t1_paid]"
proof -
  have 2: "instanceStorage state_t1_failed ''t1'' =
       Some (InstanceVal (instance_t1\<lparr>retryAttempts := 1\<rparr>))"
    by (simp add: state_t1_failed_def)
  have 3: "TechnicalID cluster_t1_paid = ''t1''" "\<not> Deleted cluster_t1_paid"
    by (simp_all add: cluster_t1_paid_def cluster_t1_def)
  have 4: "clusterHandler_step ienv_no_rg cluster_t1_paid state_t1_failed =
      state_t1_failed\<lparr>calls := calls state_t1_failed @ [GetResourceGroup],
                      redeliveries := redeliveries state_t1_failed @ [cluster_t1_paid]\<rparr>"
    by (rule clusterHandler_step_deferred)
      (simp_all add: cluster_t1_paid_def cluster_t1_def ienv_no_rg_def ienv_ok_def
        recover_instance_def Get_def state_t1_failed_def instance_t1_def)
  have 5: "redeliveries state_t1_failed = []"
    by (simp add: state_t1_failed_def state_t1_eq)
  show ?thesis using reachable_state_t1_failed 2 3 4 5 by simp
qed

text \<open>
  Claim C10, as the code has it.  For a notification that is not a deletion and whose
  identifier has an instance in the store, the rebuilt instance has the cluster of the
  notification, the last event and the event-hub resource group name of the stored
  instance, a counter of zero and no back-off flag.  When the client is constructed, and
  the name is known or the cluster is trial or the lookup succeeds, the rebuilt instance,
  with the client and the name that was known or found, replaces the stored one.  When
  the name is not known, the cluster is not trial and the lookup fails, the notification
  is scheduled for re-delivery and the store is as before.  When the client is not
  constructed the instance is removed.
\<close>

theorem refreshed_instance_resets_retry_state:
  assumes "\<not> Deleted cl"
    and "instanceStorage a (TechnicalID cl) = Some (InstanceVal old)"
  shows "recover_instance a cl =
           \<lparr>cluster = cl, client = None,
            eventHubResourceGroupName = eventHubResourceGroupName old,
            lastEvent = lastEvent old, retryAttempts = 0, retryBackoff = False\<rparr>
       \<and> (\<forall>c. newClient_res env = Inr c \<longrightarrow>
             eventHubResourceGroupName old \<noteq> [] \<or> Trial cl \<or> (\<exists>n. rg_res env = Inr n) \<longrightarrow>
             instanceStorage (clusterHandler_step env cl a) (TechnicalID cl) =
               Some (InstanceVal
                 \<lparr>cluster = cl, client = Some c,
                  eventHubResourceGroupName =
                    (if eventHubResourceGroupName old \<noteq> [] then eventHubResourceGroupName old
                     else case rg_res env of Inl e \<Rightarrow> [] | Inr n \<Rightarrow> n),
                  lastEvent = lastEvent old, retryAttempts = 0, retryBackoff = False\<rparr>))
       \<and> (\<forall>c e. newClient_res env = Inr c \<longrightarrow>
             eventHubResourceGroupName old = [] \<longrightarrow> \<not> Trial cl \<longrightarrow> rg_res env = Inl e \<longrightarrow>
             instanceStorage (clusterHandler_step env cl a) = instanceStorage a
             \<and> redeliveries (clusterHandler_step env cl a) = redeliveries a @ [cl])
       \<and> (\<forall>e. newClient_res env = Inl e \<longrightarrow>
             instanceStorage (clusterHandler_step env cl a) (TechnicalID cl) = None)"
proof -
  have r: "recover_instance a cl =
           \<lparr>cluster = cl, client = None,
            eventHubResourceGroupName = eventHubResourceGroupName old,
            lastEvent = lastEvent old, retryAttempts = 0, retryBackoff = False\<rparr>"
    by (rule recover_instance_known[OF assms(2)])
  have p: "\<forall>c. newClient_res env = Inr c \<longrightarrow>
             eventHubResourceGroupName old \<noteq> [] \<or> Trial cl \<or> (\<exists>n. rg_res env = Inr n) \<longrightarrow>
             instanceStorage (clusterHandler_step env cl a) (TechnicalID cl) =
               Some (InstanceVal
                 \<lparr>cluster = cl, client = Some c,
                  eventHubResourceGroupName =
                    (if eventHubResourceGroupName old \<noteq> [] then eventHubResourceGroupName old
                     else case rg_res env of Inl e \<Rightarrow> [] | Inr n \<Rightarrow> n),
                  lastEvent = lastEvent old, retryAttempts = 0, retryBackoff = False\<rparr>)"
  proof (intro allI impI)
    fix c
    assume c: "newClient_res env = Inr c"
      and k: "eventHubResourceGroupName old \<noteq> [] \<or> Trial cl \<or> (\<exists>n. rg_res env = Inr n)"
    from k have k': "eventHubResourceGroupName (recover_instance a cl) \<noteq> [] \<or> Trial cl
        \<or> (\<exists>n. rg_res env = Inr n)" by (simp add: r)
    show "instanceStorage (clusterHandler_step env cl a) (TechnicalID cl) =
               Some (InstanceVal
                 \<lparr>cluster = cl, client = Some c,
                  eventHubResourceGroupName =
                    (if eventHubResourceGroupName old \<noteq> [] then eventHubResourceGroupName old
                     else case rg_res env of Inl e \<Rightarrow> [] | Inr n \<Rightarrow> n),
                  lastEvent = lastEvent old, retryAttempts = 0, retryBackoff = False\<rparr>)"
      using clusterHandler_step_persisted(1)[OF assms(1) c k']
      by (simp add: Put_def resolved_name_def r)
  qed
  have d: "\<forall>c e. newClient_res env = Inr c \<longrightarrow>
             eventHubResourceGroupName old = [] \<longrightarrow> \<not> Trial cl \<longrightarrow> rg_res env = Inl e \<longrightarrow>
             instanceStorage (clusterHandler_step env cl a) = instanceStorage a
             \<and> redeliveries (clusterHandler_step env cl a) = redeliveries a @ [cl]"
  proof (intro allI impI)
    fix c e
    assume c: "newClient_res env = Inr c" and n: "eventHubResourceGroupName old = []"
      and t: "\<not> Trial cl" and l: "rg_res env = Inl e"
    have n': "eventHubResourceGroupName (recover_instance a cl) = []" using n by (simp add: r)
    show "instanceStorage (clusterHandler_step env cl a) = instanceStorage a
             \<and> redeliveries (clusterHandler_step env cl a) = redeliveries a @ [cl]"
      by (simp add: clusterHandler_step_deferred[OF assms(1) c n' l t])
  qed
  have x: "\<forall>e. newClient_res env = Inl e \<longrightarrow>
             instanceStorage (clusterHandler_step env cl a) (TechnicalID cl) = None"
    using assms(1) by (simp add: clusterHandler_step_no_client Delete_def)
  show ?thesis using r p d x by blast
qed

theorem refreshed_instance_resets_retry_state_witness:
  "\<not> Deleted cluster_c1
   \<and> instanceStorage (state_c1_not_found 4) (TechnicalID cluster_c1) =
       Some (InstanceVal (instance_c1_rg\<lparr>retryAttempts := 4\<rparr>))
   \<and> newClient_res ienv_ok = Inr 0
   \<and> instanceStorage (clusterHandler_step ienv_ok cluster_c1 (state_c1_not_found 4)) ''c1'' =
       Some (InstanceVal instance_c1_rg)
   \<and> \<not> Deleted cluster_t1_paid
   \<and> instanceStorage state_t1_failed (TechnicalID cluster_t1_paid) =
       Some (InstanceVal (instance_t1\<lparr>retryAttempts := 1\<rparr>))
   \<and> instanceStorage (clusterHandler_step ienv_no_rg cluster_t1_paid state_t1_failed) =
       instanceStorage state_t1_failed
   \<and> instanceStorage (clusterHandler_step ienv_no_client cluster_c1 (state_c1_not_found 4)) ''c1'' =
       None"
proof -
  have d: "\<not> Deleted cluster_c1" "TechnicalID cluster_c1 = ''c1''"
    "\<not> Deleted cluster_t1_paid" "TechnicalID cluster_t1_paid = ''t1''" "\<not> Trial cluster_t1_paid"
    by (simp_all add: cluster_c1_def cluster_t1_paid_def cluster_t1_def)
  have s: "instanceStorage (state_c1_not_found 4) (TechnicalID cluster_c1) =
       Some (InstanceVal (instance_c1_rg\<lparr>retryAttempts := 4\<rparr>))"
    by (simp add: not_found_counter d)
  have s': "instanceStorage state_t1_failed (TechnicalID cluster_t1_paid) =
       Some (InstanceVal (instance_t1\<lparr>retryAttempts := 1\<rparr>))"
    by (simp add: state_t1_failed_def d)
  have n: "newClient_res ienv_ok = Inr 0" "newClient_res ienv_no_rg = Inr 0"
    "rg_res ienv_no_rg = Inl (DetailedError 404 (Some ''no resource group with the tag''))"
    "newClient_res ienv_no_client = Inl (PlainError ''no credentials'')"
    by (simp_all add: ienv_ok_def ienv_no_rg_def ienv_no_client_def)
  have f: "eventHubResourceGroupName (instance_c1_rg\<lparr>retryAttempts := 4\<rparr>) = ''rg-s1''"
    "lastEvent (instance_c1_rg\<lparr>retryAttempts := 4\<rparr>) = None"
    "eventHubResourceGroupName (instance_t1\<lparr>retryAttempts := 1\<rparr>) = []"
    by (simp_all add: instance_c1_rg_def instance_c1_def instance_t1_def)
  show ?thesis
    using refreshed_instance_resets_retry_state[OF d(1) s, of ienv_ok]
      refreshed_instance_resets_retry_state[OF d(3) s', of ienv_no_rg]
      refreshed_instance_resets_retry_state[OF d(1) s, of ienv_no_client]
      d s s' n f
    by (simp add: instance_c1_rg_def instance_c1_def)
qed

section \<open>The instance store after a feed\<close>

text \<open>Handling a notification a second time, with the same answers, changes no instance.\<close>

lemma clusterHandler_step_idempotent:
  "instanceStorage (clusterHandler_step env cl (clusterHandler_step env cl a)) =
     instanceStorage (clusterHandler_step env cl a)"
proof (cases "Deleted cl")
  case True
  then show ?thesis by (simp add: clusterHandler_step_def Delete_def)
next
  case nd: False
  show ?thesis
  proof (cases "newClient_res env")
    case (Inl e)
    show ?thesis
      by (simp add: clusterHandler_step_no_client[OF nd Inl] Delete_def)
  next
    case (Inr c)
    let ?a1 = "clusterHandler_step env cl a"
    show ?thesis
    proof (cases "eventHubResourceGroupName (recover_instance a cl) \<noteq> [] \<or> Trial cl
                    \<or> (\<exists>n. rg_res env = Inr n)")
      case p: True
      let ?I = "\<lparr>cluster = cl, client = Some c,
                eventHubResourceGroupName = resolved_name env a cl,
                lastEvent = lastEvent (recover_instance a cl),
                retryAttempts = 0, retryBackoff = False\<rparr>"
      have s1: "instanceStorage ?a1 = Put (instanceStorage a) (TechnicalID cl) (InstanceVal ?I)"
        by (rule clusterHandler_step_persisted(1)[OF nd Inr p])
      then have g: "instanceStorage ?a1 (TechnicalID cl) = Some (InstanceVal ?I)"
        by (simp add: Put_def)
      have r1: "recover_instance ?a1 cl =
          \<lparr>cluster = cl, client = None, eventHubResourceGroupName = resolved_name env a cl,
           lastEvent = lastEvent (recover_instance a cl), retryAttempts = 0,
           retryBackoff = False\<rparr>"
        using recover_instance_known[OF g] by simp
      have p1: "eventHubResourceGroupName (recover_instance ?a1 cl) \<noteq> [] \<or> Trial cl
                    \<or> (\<exists>n. rg_res env = Inr n)"
        using p by (auto simp: r1 resolved_name_def)
      have n1: "resolved_name env ?a1 cl = resolved_name env a cl"
        by (auto simp: resolved_name_def r1)
      have "instanceStorage (clusterHandler_step env cl ?a1) =
          Put (instanceStorage ?a1) (TechnicalID cl) (InstanceVal ?I)"
        using clusterHandler_step_persisted(1)[OF nd Inr p1] by (simp add: n1 r1)
      then show ?thesis using s1 by (simp add: Put_def)
    next
      case False
      then obtain e where n: "eventHubResourceGroupName (recover_instance a cl) = []"
        and t: "\<not> Trial cl" and l: "rg_res env = Inl e"
        by (cases "rg_res env") auto
      have d: "?a1 = a\<lparr>calls := calls a @ [GetResourceGroup],
                       redeliveries := redeliveries a @ [cl]\<rparr>"
        by (rule clusterHandler_step_deferred[OF nd Inr n l t])
      have "recover_instance ?a1 cl = recover_instance a cl"
        by (rule recover_instance_cong) (simp add: d)
      then have n1: "eventHubResourceGroupName (recover_instance ?a1 cl) = []" using n by simp
      show ?thesis
        by (simp add: clusterHandler_step_deferred[OF nd Inr n1 l t])
    qed
  qed
qed

text \<open>
  Claim C4, as stated, at one notification.  The only notification for \<open>c1\<close> is not a
  deletion, the cluster is not trial and the lookup of its resource group fails: the
  notification is scheduled for re-delivery, and the identifier has no entry in the
  instance store although the last notification was not a deletion.
\<close>

theorem last_notification_kept_but_absent:
  "\<not> Deleted cluster_c1 \<and> TechnicalID cluster_c1 = ''c1''
   \<and> instanceStorage (clusterHandler [(ienv_no_rg, cluster_c1)] NewAzureProvider) ''c1'' = None
   \<and> redeliveries (clusterHandler [(ienv_no_rg, cluster_c1)] NewAzureProvider) = [cluster_c1]"
  by (simp add: clusterHandler_step_def cluster_c1_def ienv_no_rg_def ienv_ok_def Let_def
      recover_instance_def NewAzureProvider_def Get_def)

text \<open>
  Claim C4, as the code has it.  After any feed of notifications, the entry of the
  instance store for the identifier of the last notification is decided by that
  notification and the answers of the collaborators to it, except when it is deferred:
  \<^item> it is absent when the notification is a deletion, or the client is not constructed;
  \<^item> it is an instance with the cluster of the notification when the notification is not
    a deletion, the client is constructed, and the event-hub resource group name is known
    from the earlier notifications, or the cluster is trial, or the lookup succeeds;
  \<^item> the store is as the earlier notifications left it when the name is not known, the
    cluster is not trial and the lookup fails; the notification is then scheduled for
    re-delivery.
  A deletion for an identifier without entry changes nothing, and handling the last
  notification once more, with the same answers, leaves the instance store as it is.
\<close>

theorem final_cache_state_of_feed:
  fixes feed :: "(intake_env \<times> Cluster) list" and env :: intake_env and cl :: Cluster
    and a :: Azure
  defines "before \<equiv> clusterHandler feed a"
  defines "final \<equiv> clusterHandler (feed @ [(env, cl)]) a"
  shows "(Deleted cl \<longrightarrow> instanceStorage final (TechnicalID cl) = None)
       \<and> (\<forall>e. \<not> Deleted cl \<longrightarrow> newClient_res env = Inl e \<longrightarrow>
             instanceStorage final (TechnicalID cl) = None)
       \<and> (\<forall>c. \<not> Deleted cl \<longrightarrow> newClient_res env = Inr c \<longrightarrow>
             eventHubResourceGroupName (recover_instance before cl) \<noteq> [] \<or> Trial cl
               \<or> (\<exists>n. rg_res env = Inr n) \<longrightarrow>
             (\<exists>i. instanceStorage final (TechnicalID cl) = Some (InstanceVal i)
                  \<and> cluster i = cl \<and> retryAttempts i = 0 \<and> \<not> retryBackoff i))
       \<and> (\<forall>c e. \<not> Deleted cl \<longrightarrow> newClient_res env = Inr c \<longrightarrow>
             eventHubResourceGroupName (recover_instance before cl) = [] \<longrightarrow> \<not> Trial cl \<longrightarrow>
             rg_res env = Inl e \<longrightarrow>
             instanceStorage final = instanceStorage before
             \<and> redeliveries final = redeliveries before @ [cl])
       \<and> (Deleted cl \<longrightarrow> instanceStorage before (TechnicalID cl) = None \<longrightarrow> final = before)
       \<and> instanceStorage (clusterHandler_step env cl final) = instanceStorage final"
proof -
  have f: "final = clusterHandler_step env cl before"
    by (simp add: final_def before_def clusterHandler_append)
  have 1: "Deleted cl \<longrightarrow> instanceStorage final (TechnicalID cl) = None"
    by (simp add: f clusterHandler_step_def Delete_def)
  have 2: "\<forall>e. \<not> Deleted cl \<longrightarrow> newClient_res env = Inl e \<longrightarrow>
             instanceStorage final (TechnicalID cl) = None"
    by (simp add: f clusterHandler_step_no_client Delete_def)
  have 3: "\<forall>c. \<not> Deleted cl \<longrightarrow> newClient_res env = Inr c \<longrightarrow>
             eventHubResourceGroupName (recover_instance before cl) \<noteq> [] \<or> Trial cl
               \<or> (\<exists>n. rg_res env = Inr n) \<longrightarrow>
             (\<exists>i. instanceStorage final (TechnicalID cl) = Some (InstanceVal i)
                  \<and> cluster i = cl \<and> retryAttempts i = 0 \<and> \<not> retryBackoff i)"
  proof (intro allI impI)
    fix c
    assume nd: "\<not> Deleted cl" and c: "newClient_res env = Inr c"
      and p: "eventHubResourceGroupName (recover_instance before cl) \<noteq> [] \<or> Trial cl
               \<or> (\<exists>n. rg_res env = Inr n)"
    show "\<exists>i. instanceStorage final (TechnicalID cl) = Some (InstanceVal i)
                  \<and> cluster i = cl \<and> retryAttempts i = 0 \<and> \<not> retryBackoff i"
      using clusterHandler_step_persisted(1)[OF nd c p] by (simp add: f Put_def)
  qed
  have 4: "\<forall>c e. \<not> Deleted cl \<longrightarrow> newClient_res env = Inr c \<longrightarrow>
             eventHubResourceGroupName (recover_instance before cl) = [] \<longrightarrow> \<not> Trial cl \<longrightarrow>
             rg_res env = Inl e \<longrightarrow>
             instanceStorage final = instanceStorage before
             \<and> redeliveries final = redeliveries before @ [cl]"
    by (simp add: f clusterHandler_step_deferred)
  have 5: "Deleted cl \<longrightarrow> instanceStorage before (TechnicalID cl) = None \<longrightarrow> final = before"
  proof (intro impI)
    assume d: "Deleted cl" and n: "instanceStorage before (TechnicalID cl) = None"
    have "Delete (instanceStorage before) (TechnicalID cl) = instanceStorage before"
      using n by (auto simp: Delete_def)
    then show "final = before" using d by (simp add: f clusterHandler_step_def)
  qed
  have 6: "instanceStorage (clusterHandler_step env cl final) = instanceStorage final"
    unfolding f by (rule clusterHandler_step_idempotent)
  show ?thesis using 1 2 3 4 5 6 by blast
qed

theorem final_cache_state_of_feed_witness:
  "Deleted cluster_c1_gone \<and> TechnicalID cluster_c1_gone = ''c1''
   \<and> instanceStorage
        (clusterHandler ([(ienv_ok, cluster_c1)] @ [(ienv_ok, cluster_c1_gone)]) NewAzureProvider)
        ''c1'' = None
   \<and> clusterHandler ([] @ [(ienv_ok, cluster_c1_gone)]) NewAzureProvider = NewAzureProvider
   \<and> \<not> Deleted cluster_c1 \<and> newClient_res ienv_ok = Inr 0 \<and> rg_res ienv_ok = Inr ''rg-s1''
   \<and> (\<exists>i. instanceStorage
             (clusterHandler ([(ienv_ok, cluster_c1_gone)] @ [(ienv_ok, cluster_c1)])
                NewAzureProvider) ''c1'' = Some (InstanceVal i)
          \<and> cluster i = cluster_c1)
   \<and> instanceStorage
        (clusterHandler ([(ienv_ok, cluster_c1)] @ [(ienv_no_client, cluster_c1)])
           NewAzureProvider) ''c1'' = None
   \<and> \<not> Deleted cluster_t1_paid \<and> \<not> Trial cluster_t1_paid
   \<and> instanceStorage
        (clusterHandler ([(ienv_no_rg, cluster_t1)] @ [(ienv_no_rg, cluster_t1_paid)])
           NewAzureProvider) = [''t1'' \<mapsto> InstanceVal instance_t1]"
proof -
  have d: "Deleted cluster_c1_gone" "TechnicalID cluster_c1_gone = ''c1''"
    "\<not> Deleted cluster_c1" "TechnicalID cluster_c1 = ''c1''"
    "\<not> Deleted cluster_t1_paid" "\<not> Trial cluster_t1_paid"
    by (simp_all add: cluster_c1_gone_def cluster_c1_def cluster_t1_paid_def cluster_t1_def)
  have n: "newClient_res ienv_ok = Inr 0" "rg_res ienv_ok = Inr ''rg-s1''"
    "newClient_res ienv_no_client = Inl (PlainError ''no credentials'')"
    "newClient_res ienv_no_rg = Inr 0"
    "rg_res ienv_no_rg = Inl (DetailedError 404 (Some ''no resource group with the tag''))"
    by (simp_all add: ienv_ok_def ienv_no_client_def ienv_no_rg_def)
  have e: "instanceStorage (clusterHandler [] NewAzureProvider) (TechnicalID cluster_c1_gone) = None"
    by (simp add: NewAzureProvider_def)
  have t: "clusterHandler [(ienv_no_rg, cluster_t1)] NewAzureProvider = state_t1"
    by (simp add: state_t1_def)
  have u: "eventHubResourceGroupName (recover_instance state_t1 cluster_t1_paid) = []"
    by (simp add: recover_instance_def Get_def state_t1_eq cluster_t1_paid_def cluster_t1_def
        instance_t1_def)
  have s: "instanceStorage state_t1 = [''t1'' \<mapsto> InstanceVal instance_t1]"
    by (simp add: state_t1_eq)
  have e0: "clusterHandler [] NewAzureProvider = NewAzureProvider" by simp
  have w1: "instanceStorage
        (clusterHandler ([(ienv_ok, cluster_c1)] @ [(ienv_ok, cluster_c1_gone)]) NewAzureProvider)
        ''c1'' = None"
    using final_cache_state_of_feed[of cluster_c1_gone "[(ienv_ok, cluster_c1)]" ienv_ok
        NewAzureProvider] d
    by (simp del: clusterHandler.simps append.simps)
  have w2: "clusterHandler ([] @ [(ienv_ok, cluster_c1_gone)]) NewAzureProvider = NewAzureProvider"
    using final_cache_state_of_feed[of cluster_c1_gone "[]" ienv_ok NewAzureProvider] d e
    by (simp del: clusterHandler.simps append.simps add: e0)
  have w3: "\<exists>i. instanceStorage
             (clusterHandler ([(ienv_ok, cluster_c1_gone)] @ [(ienv_ok, cluster_c1)])
                NewAzureProvider) ''c1'' = Some (InstanceVal i)
          \<and> cluster i = cluster_c1"
    using final_cache_state_of_feed[of cluster_c1 "[(ienv_ok, cluster_c1_gone)]" ienv_ok
        NewAzureProvider] d n
    by (auto simp del: clusterHandler.simps append.simps)
  have w4: "instanceStorage
        (clusterHandler ([(ienv_ok, cluster_c1)] @ [(ienv_no_client, cluster_c1)])
           NewAzureProvider) ''c1'' = None"
    using final_cache_state_of_feed[of cluster_c1 "[(ienv_ok, cluster_c1)]" ienv_no_client
        NewAzureProvider] d n
    by (simp del: clusterHandler.simps append.simps)
  have w5: "instanceStorage
        (clusterHandler ([(ienv_no_rg, cluster_t1)] @ [(ienv_no_rg, cluster_t1_paid)])
           NewAzureProvider) = [''t1'' \<mapsto> InstanceVal instance_t1]"
    using final_cache_state_of_feed[of cluster_t1_paid "[(ienv_no_rg, cluster_t1)]" ienv_no_rg
        NewAzureProvider] d n u s
    by (simp del: clusterHandler.simps append.simps add: t)
  show ?thesis using d n w1 w2 w3 w4 w5 by simp
qed

end
